theory Spec2Isabelle
  imports Main
begin

section \<open>Python values\<close>

text \<open>
  The library passes around untyped Python values: arguments that are checked with
  \<^verbatim>\<open>isinstance\<close> and \<^verbatim>\<open>assert\<close>, and decoded JSON documents read with
  \<^verbatim>\<open>.get\<close>. A dict is an association list in insertion order, with distinct keys.
  Floats do not occur in the properties below and are left out.
\<close>

datatype pyval =
    PNone
  | PBool bool
  | PInt int
  | PStr string
  | PList "pyval list"
  | PDict "(string \<times> pyval) list"

text \<open>Python truthiness, as used by \<^verbatim>\<open>if x:\<close> and \<^verbatim>\<open>assert x\<close>.\<close>

fun truthy :: "pyval \<Rightarrow> bool" where
  "truthy PNone = False"
| "truthy (PBool b) = b"
| "truthy (PInt i) = (i \<noteq> 0)"
| "truthy (PStr s) = (s \<noteq> [])"
| "truthy (PList xs) = (xs \<noteq> [])"
| "truthy (PDict d) = (d \<noteq> [])"

text \<open>\<^verbatim>\<open>isinstance(x, int)\<close>: \<^verbatim>\<open>bool\<close> is a subclass of \<^verbatim>\<open>int\<close>.\<close>

fun isinstance_int :: "pyval \<Rightarrow> bool" where
  "isinstance_int (PInt i) = True"
| "isinstance_int (PBool b) = True"
| "isinstance_int v = False"

fun isinstance_str :: "pyval \<Rightarrow> bool" where
  "isinstance_str (PStr s) = True"
| "isinstance_str v = False"

fun isinstance_dict :: "pyval \<Rightarrow> bool" where
  "isinstance_dict (PDict d) = True"
| "isinstance_dict v = False"

text \<open>
  An f-string is kept as the list of its parts, literal text and interpolated values;
  rendering the values is Python's \<^verbatim>\<open>str()\<close>.
\<close>

datatype fpart = Lit string | Fmt pyval

type_synonym fstring = "fpart list"

section \<open>Responses and the error taxonomy (errors.py)\<close>

text \<open>
  A \<^verbatim>\<open>requests\<close> response: \<open>json\<close> is the result of \<^verbatim>\<open>r.json()\<close>, and \<open>None\<close>
  there is a body that is not a JSON document (the call raises).
\<close>

record response =
  status_code :: int
  reason :: string
  json :: "pyval option"

datatype kind =
    BadRequest
  | InternalServerError
  | NotFound
  | RegistrationError
  | ActivationError
  | AuthorizationError
  | PasswordRestoreError
  | AccountDeletionError
  | OutOfRateLimits
  | NotAllowed
  | InvalidToken
  | NotInitialized
  | NotAcceptable
  | AlreadyExists

text \<open>
  Everything that can propagate out of a call. \<open>XYZException k res msg exc_data\<close> is an
  instance of the subclass \<open>k\<close> of \<^verbatim>\<open>XYZException\<close> with its three slots; the others
  are Python's built-in exceptions and the transport failure of \<^verbatim>\<open>requests\<close>.
\<close>

datatype exc =
    XYZException kind response "string option" fstring
  | AssertionError string
  | AttributeError
  | TypeError
  | ValueError
  | StopIteration
  | KeyError
  | JSONDecodeError
  | ConnectionError

text \<open>
  \<^verbatim>\<open>XYZException.__init__(self, res, msg = None)\<close>. The first argument is whatever the
  call site passes: a response, or some other value.
\<close>

datatype resarg = Response response | Value pyval

definition exc_data_of :: "response \<Rightarrow> string option \<Rightarrow> fstring" where
  "exc_data_of r m =
     [Lit ''('', Fmt (PInt (status_code r)), Lit '' | '', Fmt (PStr (reason r)), Lit '')'']
     @ (case m of
          None \<Rightarrow> []
        | Some s \<Rightarrow> if s \<noteq> [] then [Lit '' '', Fmt (PStr s)] else [])"

definition new_exception :: "kind \<Rightarrow> response \<Rightarrow> string option \<Rightarrow> exc" where
  "new_exception k r m = XYZException k r m (exc_data_of r m)"

text \<open>
  \<open>Inr\<close> is the constructed exception, \<open>Inl\<close> what the constructor itself raises:
  \<^verbatim>\<open>self.res.status_code\<close> on a value without that attribute is an AttributeError.
\<close>

fun XYZException_init :: "kind \<Rightarrow> resarg \<Rightarrow> string option \<Rightarrow> exc + exc" where
  "XYZException_init k (Response r) m = Inr (new_exception k r m)"
| "XYZException_init k (Value v) m = Inl AttributeError"

text \<open>What propagates from \<^verbatim>\<open>raise K(res, msg)\<close>.\<close>

definition raised :: "exc + exc \<Rightarrow> exc" where
  "raised c = (case c of Inl e \<Rightarrow> e | Inr e \<Rightarrow> e)"

subsection \<open>The generic mapper\<close>

text \<open>The dict \<^verbatim>\<open>raises\<close> of \<^verbatim>\<open>_raise_for_errors\<close>, built for the response at hand.\<close>

definition raises :: "response \<Rightarrow> (int \<times> exc) list" where
  "raises r =
     [(400, new_exception BadRequest r None),
      (401, new_exception NotInitialized r
              (Some ''you have hot initialized your session or did it wrong.'')),
      (404, new_exception NotFound r (Some ''can not act with object.'')),
      (406, new_exception NotAcceptable r
              (Some ''check the request data you trying to send.'')),
      (409, new_exception NotAcceptable r
              (Some ''Attachment error. Check your avatar or background url validation.'')),
      (429, new_exception OutOfRateLimits r None),
      (500, new_exception InternalServerError r
              (Some ''a server side error has occured. Contact developers for help.''))]"

definition raise_for_errors :: "response \<Rightarrow> int list \<Rightarrow> exc + unit" where
  "raise_for_errors r exc_of =
     (case map_of (raises r) (status_code r) of
        Some e \<Rightarrow> if status_code r \<notin> set exc_of then Inl e else Inr ()
      | None \<Rightarrow> Inr ())"

section \<open>Requests, the store and the process-wide state\<close>

datatype http_method = GET | POST | PUT | DELETE

text \<open>
  One call of \<^verbatim>\<open>requests.get/post/put/delete\<close>. \<open>data\<close> is the value handed to
  \<^verbatim>\<open>json.dumps\<close> for the body, \<open>None\<close> when the call has no body.
\<close>

record request =
  meth :: http_method
  url :: fstring
  params :: "(string \<times> pyval) list"
  headers :: "(string \<times> fstring) list"
  data :: "pyval option"

text \<open>The slots of a \<^verbatim>\<open>Session\<close> object.\<close>

record session =
  id_session :: pyval
  token :: pyval
  refresh_token :: pyval
  token_expiration :: pyval
  refresh_token_expiration :: pyval

text \<open>
  Session objects are mutable and shared with the module global \<^verbatim>\<open>_authorization\<close>,
  so they live in a store: \<open>heap\<close> maps an address to the object there, \<open>next_addr\<close> is
  the next free address. \<open>authorization\<close> is the global: \<open>None\<close> for Python's
  \<^verbatim>\<open>None\<close>, otherwise the address of the published session. \<open>sent\<close> is the log of
  the network requests issued so far.
\<close>

record state =
  heap :: "nat \<Rightarrow> session"
  next_addr :: nat
  authorization :: "nat option"
  sent :: "request list"

text \<open>
  The remote service: what it answers to a request, given the requests before it.
  \<open>Inl\<close> is a transport failure raised by \<^verbatim>\<open>requests\<close>.
\<close>

type_synonym server = "request list \<Rightarrow> request \<Rightarrow> exc + response"

type_synonym 'a prog = "state \<Rightarrow> (exc + 'a) \<times> state"

definition ret :: "'a \<Rightarrow> 'a prog" where
  "ret x st = (Inr x, st)"

definition raise :: "exc \<Rightarrow> 'a prog" where
  "raise e st = (Inl e, st)"

definition thn :: "'a prog \<Rightarrow> ('a \<Rightarrow> 'b prog) \<Rightarrow> 'b prog" where
  "thn m f st = (case m st of (Inl e, st') \<Rightarrow> (Inl e, st') | (Inr x, st') \<Rightarrow> f x st')"

definition sthn :: "exc + 'a \<Rightarrow> ('a \<Rightarrow> exc + 'b) \<Rightarrow> exc + 'b" where
  "sthn m f = (case m of Inl e \<Rightarrow> Inl e | Inr x \<Rightarrow> f x)"

definition lift :: "exc + 'a \<Rightarrow> 'a prog" where
  "lift m st = (m, st)"

text \<open>\<^verbatim>\<open>assert b, m\<close>, with assertions enabled (Python run without \<^verbatim>\<open>-O\<close>).\<close>

definition py_assert :: "bool \<Rightarrow> string \<Rightarrow> unit prog" where
  "py_assert b m = (if b then ret () else raise (AssertionError m))"

definition send :: "server \<Rightarrow> request \<Rightarrow> response prog" where
  "send srv rq st = (srv (sent st) rq, st\<lparr>sent := sent st @ [rq]\<rparr>)"

subsection \<open>Reading decoded JSON\<close>

text \<open>\<^verbatim>\<open>d.get(k)\<close>: only a dict has the method.\<close>

definition dict_get :: "(string \<times> pyval) list \<Rightarrow> string \<Rightarrow> pyval" where
  "dict_get d k = (case map_of d k of None \<Rightarrow> PNone | Some v \<Rightarrow> v)"

fun py_get :: "pyval \<Rightarrow> string \<Rightarrow> exc + pyval" where
  "py_get (PDict d) k = Inr (dict_get d k)"
| "py_get v k = Inl AttributeError"

text \<open>\<^verbatim>\<open>d.get(k1, {}).get(k2)\<close>\<close>

definition py_get2 :: "pyval \<Rightarrow> string \<Rightarrow> string \<Rightarrow> exc + pyval" where
  "py_get2 v k1 k2 =
     (case v of
        PDict d \<Rightarrow> (case map_of d k1 of None \<Rightarrow> Inr PNone | Some w \<Rightarrow> py_get w k2)
      | _ \<Rightarrow> Inl AttributeError)"

text \<open>
  When \<^verbatim>\<open>d.get('timestamps', {}).get(k)\<close> succeeds on a dict \<open>d\<close>: the key is absent, or
  its value is a dict.
\<close>

definition timestamps_decodable :: "(string \<times> pyval) list \<Rightarrow> bool" where
  "timestamps_decodable d =
     (case map_of d ''timestamps'' of None \<Rightarrow> True | Some w \<Rightarrow> isinstance_dict w)"

text \<open>\<^verbatim>\<open>r.json().get('data')\<close>\<close>

definition json_data :: "response \<Rightarrow> exc + pyval" where
  "json_data r = (case json r of None \<Rightarrow> Inl JSONDecodeError | Some v \<Rightarrow> py_get v ''data'')"

text \<open>
  What \<^verbatim>\<open>for x in v\<close> iterates over: the items of a list, the characters of a string,
  the keys of a dict; anything else is not iterable.
\<close>

fun py_iter :: "pyval \<Rightarrow> exc + pyval list" where
  "py_iter (PList xs) = Inr xs"
| "py_iter (PStr s) = Inr (map (\<lambda>c. PStr [c]) s)"
| "py_iter (PDict d) = Inr (map (\<lambda>p. PStr (fst p)) d)"
| "py_iter v = Inl TypeError"

text \<open>A list comprehension \<^verbatim>\<open>[f(x) for x in xs]\<close> whose \<open>f\<close> may raise.\<close>

fun map_exc :: "('a \<Rightarrow> exc + 'b) \<Rightarrow> 'a list \<Rightarrow> exc + 'b list" where
  "map_exc f [] = Inr []"
| "map_exc f (x # xs) =
     (case f x of
        Inl e \<Rightarrow> Inl e
      | Inr y \<Rightarrow> (case map_exc f xs of Inl e \<Rightarrow> Inl e | Inr ys \<Rightarrow> Inr (y # ys)))"

text \<open>
  \<^verbatim>\<open>for i in a, b, ...: assert isinstance(i, str), m1; assert i, m2\<close>
\<close>

fun assert_strs :: "pyval list \<Rightarrow> string \<Rightarrow> string \<Rightarrow> exc + unit" where
  "assert_strs [] m1 m2 = Inr ()"
| "assert_strs (i # rest) m1 m2 =
     (if \<not> isinstance_str i then Inl (AssertionError m1)
      else if \<not> truthy i then Inl (AssertionError m2)
      else assert_strs rest m1 m2)"

definition bearer :: "pyval \<Rightarrow> fstring" where
  "bearer t = [Lit ''Bearer '', Fmt t]"

definition json_header :: "string \<times> fstring" where
  "json_header = (''content-type'', [Lit ''application/json''])"

text \<open>
  \<^verbatim>\<open>_authorization.token\<close>, read from the global: an AttributeError while the global
  is \<^verbatim>\<open>None\<close>.
\<close>

definition authorization_token :: "pyval prog" where
  "authorization_token st =
     (case authorization st of
        None \<Rightarrow> (Inl AttributeError, st)
      | Some a \<Rightarrow> (Inr (token (heap st a)), st))"

text \<open>
  The decorator \<^verbatim>\<open>_auth_required\<close>. Its \<^verbatim>\<open>raise\<close> builds the exception from the message
  alone, so the message is what \<^verbatim>\<open>XYZException.__init__\<close> receives as \<open>res\<close>.
\<close>

definition auth_required :: "'a prog \<Rightarrow> 'a prog" where
  "auth_required req st =
     (if authorization st = None
      then raise (raised (XYZException_init NotInitialized
                    (Value (PStr ''you have not initialized your session.'')) None)) st
      else req st)"

section \<open>Data objects decoded from JSON (api.py, xyz.py)\<close>

text \<open>
  Each constructor reads its fields with \<^verbatim>\<open>.get\<close>, so it raises when handed
  something that is not a dict, or a dict whose \<^verbatim>\<open>timestamps\<close> is not one.
\<close>

record session_info =
  ips_session_info :: pyval
  refresh_count :: pyval
  id_session_info :: pyval
  created_at_session_info :: pyval
  last_updated_at_session_info :: pyval

definition SessionInfo_new :: "pyval \<Rightarrow> exc + session_info" where
  "SessionInfo_new v =
     sthn (py_get v ''ips'') (\<lambda>i.
     sthn (py_get v ''refreshCount'') (\<lambda>c.
     sthn (py_get v ''id'') (\<lambda>n.
     sthn (py_get2 v ''timestamps'' ''createdOn'') (\<lambda>cr.
     sthn (py_get2 v ''timestamps'' ''lastUpdatedSessionOn'') (\<lambda>up.
     Inr \<lparr>ips_session_info = i, refresh_count = c, id_session_info = n,
          created_at_session_info = cr, last_updated_at_session_info = up\<rparr>)))))"

record account =
  permission_level :: pyval
  username :: pyval
  avatar_url :: pyval
  id_account :: pyval
  created_at_account :: pyval
  last_updated_at_account :: pyval

definition Account_new :: "pyval \<Rightarrow> exc + account" where
  "Account_new v =
     sthn (py_get v ''permissionLevel'') (\<lambda>pl.
     sthn (py_get v ''username'') (\<lambda>u.
     sthn (py_get v ''avatarUrl'') (\<lambda>av.
     sthn (py_get v ''id'') (\<lambda>n.
     sthn (py_get v ''accountCreatedOn'') (\<lambda>cr.
     sthn (py_get v ''accountLastUpdatedOn'') (\<lambda>up.
     Inr \<lparr>permission_level = pl, username = u, avatar_url = av, id_account = n,
          created_at_account = cr, last_updated_at_account = up\<rparr>))))))"

record my_account = account +
  email :: pyval

definition MyAccount_new :: "pyval \<Rightarrow> exc + my_account" where
  "MyAccount_new v =
     sthn (py_get v ''email'') (\<lambda>e.
     sthn (Account_new v) (\<lambda>a.
     Inr \<lparr>permission_level = permission_level a, username = username a,
          avatar_url = avatar_url a, id_account = id_account a,
          created_at_account = created_at_account a,
          last_updated_at_account = last_updated_at_account a, email = e\<rparr>))"

record comment =
  author_comment :: pyval
  stats_comment :: pyval
  gdps_id :: pyval
  text_comment :: pyval
  content_comment :: pyval
  id_comment :: pyval
  created_at_comment :: pyval
  last_updated_at_comment :: pyval

definition Comment_new :: "pyval \<Rightarrow> exc + comment" where
  "Comment_new v =
     sthn (py_get v ''account'') (\<lambda>au.
     sthn (py_get v ''stats'') (\<lambda>s.
     sthn (py_get v ''gdpsId'') (\<lambda>g.
     sthn (py_get v ''text'') (\<lambda>t.
     sthn (py_get v ''id'') (\<lambda>n.
     sthn (py_get2 v ''timestamps'' ''createdOn'') (\<lambda>cr.
     sthn (py_get2 v ''timestamps'' ''lastUpdatedOn'') (\<lambda>up.
     Inr \<lparr>author_comment = au, stats_comment = s, gdps_id = g, text_comment = t,
          content_comment = t, id_comment = n, created_at_comment = cr,
          last_updated_at_comment = up\<rparr>)))))))"

record gdps =
  images_gdps :: pyval
  owner_gdps :: pyval
  links_gdps :: pyval
  stats_gdps :: pyval
  is_pre_moderated :: pyval
  is_verified :: pyval
  locale_gdps :: pyval
  name_gdps :: pyval
  desc_gdps :: pyval
  id_gdps :: pyval
  created_at_gdps :: pyval
  last_updated_at_gdps :: pyval

definition GDPS_new :: "pyval \<Rightarrow> exc + gdps" where
  "GDPS_new v =
     sthn (py_get v ''images'') (\<lambda>im.
     sthn (py_get v ''account'') (\<lambda>ow.
     sthn (py_get v ''links'') (\<lambda>li.
     sthn (py_get v ''stats'') (\<lambda>s.
     sthn (py_get v ''isPreModerated'') (\<lambda>pm.
     sthn (py_get v ''isVerified'') (\<lambda>ve.
     sthn (py_get v ''locale'') (\<lambda>lo.
     sthn (py_get v ''name'') (\<lambda>na.
     sthn (py_get v ''desc'') (\<lambda>de.
     sthn (py_get v ''id'') (\<lambda>n.
     sthn (py_get2 v ''timestamps'' ''createdOn'') (\<lambda>cr.
     sthn (py_get2 v ''timestamps'' ''lastUpdatedOn'') (\<lambda>up.
     Inr \<lparr>images_gdps = im, owner_gdps = ow, links_gdps = li, stats_gdps = s,
          is_pre_moderated = pm, is_verified = ve, locale_gdps = lo, name_gdps = na,
          desc_gdps = de, id_gdps = n, created_at_gdps = cr,
          last_updated_at_gdps = up\<rparr>))))))))))))"

section \<open>The session lifecycle (class Session)\<close>

text \<open>\<^verbatim>\<open>Session.__init__\<close>: a new object in the store; the result is its address.\<close>

definition Session_fields :: "pyval \<Rightarrow> exc + session" where
  "Session_fields v =
     sthn (py_get v ''token'') (\<lambda>t.
     sthn (py_get v ''refreshToken'') (\<lambda>rt.
     sthn (py_get v ''tokenExpiration'') (\<lambda>te.
     sthn (py_get v ''refreshTokenExpiration'') (\<lambda>rte.
     sthn (py_get v ''id'') (\<lambda>n.
     Inr \<lparr>id_session = n, token = t, refresh_token = rt, token_expiration = te,
          refresh_token_expiration = rte\<rparr>)))))"

definition Session_new :: "pyval \<Rightarrow> nat prog" where
  "Session_new v st =
     (case Session_fields v of
        Inl e \<Rightarrow> (Inl e, st)
      | Inr s \<Rightarrow>
          (Inr (next_addr st),
           st\<lparr>heap := (heap st)(next_addr st := s), next_addr := Suc (next_addr st)\<rparr>))"

text \<open>\<^verbatim>\<open>Session.init\<close>: publish the object at \<open>a\<close> as the active session.\<close>

definition Session_init :: "nat \<Rightarrow> unit prog" where
  "Session_init a st = (Inr (), st\<lparr>authorization := Some a\<rparr>)"

definition Session_sessions :: "nat \<Rightarrow> pyval \<Rightarrow> server \<Rightarrow> session_info list prog" where
  "Session_sessions a page srv =
     thn (py_assert (isinstance_int page) ''page must be an integer.'') (\<lambda>_.
     thn (py_assert (truthy page) ''page integer must be positive.'') (\<lambda>_.
     thn (\<lambda>st. send srv
            \<lparr>meth = GET, url = [Lit ''https://gdps.xyz/api/session/all/''],
             params = [(''page'', page)],
             headers = [(''authorization'', bearer (token (heap st a)))],
             data = None\<rparr> st) (\<lambda>r.
     thn (if 400 \<le> status_code r then lift (raise_for_errors r []) else ret ()) (\<lambda>_.
     lift (sthn (json_data r) (\<lambda>v. sthn (py_iter v) (map_exc SessionInfo_new)))))))"

definition refresh_request :: "session \<Rightarrow> request" where
  "refresh_request s =
     \<lparr>meth = GET, url = [Lit ''https://gdps.xyz/api/session/reauthorize/''],
      params = [], headers = [json_header],
      data = Some (PDict [(''refreshToken'', refresh_token s)])\<rparr>"

definition Session_refresh :: "nat \<Rightarrow> server \<Rightarrow> unit prog" where
  "Session_refresh a srv =
     thn (\<lambda>st. send srv (refresh_request (heap st a)) st) (\<lambda>r.
     thn (lift (json_data r)) (\<lambda>session.
     if truthy session then
       thn (lift (py_get session ''token'')) (\<lambda>t.
       thn (\<lambda>st. (Inr (), st\<lparr>heap := (heap st)(a := (heap st a)\<lparr>token := t\<rparr>)\<rparr>)) (\<lambda>_.
       (\<lambda>st. if authorization st \<noteq> None then Session_init a st else ret () st)))
     else if 400 \<le> status_code r then
       thn (lift (raise_for_errors r [401])) (\<lambda>_.
       if status_code r = 401
       then raise (new_exception InvalidToken r
                     (Some ''Can not refresh session. Invalid refresh token.''))
       else ret ())
     else ret ()))"

definition close_request :: "session \<Rightarrow> request" where
  "close_request s =
     \<lparr>meth = DELETE,
      url = [Lit ''https://gdps.xyz/api/session/'', Fmt (id_session s), Lit ''/''],
      params = [],
      headers = [json_header, (''authorization'', bearer (token s))],
      data = None\<rparr>"

definition Session_close :: "nat \<Rightarrow> server \<Rightarrow> unit prog" where
  "Session_close a srv =
     thn (\<lambda>st. send srv (close_request (heap st a)) st) (\<lambda>r.
     if 400 \<le> status_code r then
       thn (lift (raise_for_errors r [401])) (\<lambda>_.
       if status_code r = 401
       then raise (new_exception InvalidToken r (Some ''invalid session token.''))
       else ret ())
     else ret ())"

text \<open>\<^verbatim>\<open>__enter__\<close> and \<^verbatim>\<open>__exit__\<close>; the latter gets the exception of the block, if any.\<close>

definition Session_enter :: "nat \<Rightarrow> nat prog" where
  "Session_enter a = thn (Session_init a) (\<lambda>_. ret a)"

definition Session_exit :: "nat \<Rightarrow> exc option \<Rightarrow> server \<Rightarrow> bool prog" where
  "Session_exit a exc_type srv =
     thn (if exc_type = None then Session_close a srv else ret ()) (\<lambda>_. ret False)"

text \<open>
  Python's \<^verbatim>\<open>with s as x: block\<close> for a session: the block runs on what \<^verbatim>\<open>__enter__\<close>
  returned; \<^verbatim>\<open>__exit__\<close> runs on both exits; an exception of the block propagates
  unless \<^verbatim>\<open>__exit__\<close> returned a true value, and one raised by \<^verbatim>\<open>__exit__\<close> itself
  replaces it. The result is \<open>None\<close> when an exception was swallowed.
\<close>

definition with_session :: "nat \<Rightarrow> (nat \<Rightarrow> 'a prog) \<Rightarrow> server \<Rightarrow> 'a option prog" where
  "with_session a block srv =
     thn (Session_enter a) (\<lambda>x st.
       case block x st of
         (Inl e, st') \<Rightarrow>
           (case Session_exit a (Some e) srv st' of
              (Inl e', st'') \<Rightarrow> (Inl e', st'')
            | (Inr swallow, st'') \<Rightarrow> if swallow then (Inr None, st'') else (Inl e, st''))
       | (Inr v, st') \<Rightarrow>
           (case Session_exit a None srv st' of
              (Inl e', st'') \<Rightarrow> (Inl e', st'')
            | (Inr swallow, st'') \<Rightarrow> (Inr (Some v), st'')))"

section \<open>Resource operations (api.py)\<close>

subsection \<open>The partial-update loop\<close>

text \<open>
  The start index \<^verbatim>\<open>itertools.islice(it, i, None)\<close> accepts: \<^verbatim>\<open>None\<close> or an integer
  from 0 to \<^verbatim>\<open>sys.maxsize\<close>; anything else is a ValueError.
\<close>

fun islice_start :: "pyval \<Rightarrow> exc + nat" where
  "islice_start PNone = Inr 0"
| "islice_start (PInt n) =
     (if 0 \<le> n \<and> n \<le> 9223372036854775807 then Inr (nat n) else Inl ValueError)"
| "islice_start (PBool b) = Inr (if b then 1 else 0)"
| "islice_start v = Inl ValueError"

text \<open>\<^verbatim>\<open>next(islice(xs, i, None))\<close>\<close>

definition islice_next :: "'a list \<Rightarrow> pyval \<Rightarrow> exc + 'a" where
  "islice_next xs i =
     sthn (islice_start i) (\<lambda>n.
       case drop n xs of [] \<Rightarrow> Inl StopIteration | x # rest \<Rightarrow> Inr x)"

text \<open>\<^verbatim>\<open>del body[k]\<close>\<close>

definition py_del :: "(string \<times> pyval) list \<Rightarrow> string \<Rightarrow> exc + (string \<times> pyval) list" where
  "py_del body k =
     (if k \<in> set (map fst body) then Inr (filter (\<lambda>p. fst p \<noteq> k) body) else Inl KeyError)"

text \<open>
  The loop shared by \<^verbatim>\<open>MyAccount.update\<close> and \<^verbatim>\<open>GDPS.update\<close>:
  \<^verbatim>\<open>
  for i in <the arguments>:
      if i:
          assert isinstance(i, str), m1
          assert i, m2
      else:
          del body[next(islice(body, i, None))]
  \<close>
  Iterating a dict yields its keys.
\<close>

fun update_loop ::
  "pyval list \<Rightarrow> string \<Rightarrow> string \<Rightarrow> (string \<times> pyval) list \<Rightarrow> exc + (string \<times> pyval) list"
where
  "update_loop [] m1 m2 body = Inr body"
| "update_loop (i # rest) m1 m2 body =
     (if truthy i then
        (if \<not> isinstance_str i then Inl (AssertionError m1)
         else if \<not> truthy i then Inl (AssertionError m2)
         else update_loop rest m1 m2 body)
      else
        (case islice_next (map fst body) i of
           Inl e \<Rightarrow> Inl e
         | Inr k \<Rightarrow>
             (case py_del body k of
                Inl e \<Rightarrow> Inl e
              | Inr body' \<Rightarrow> update_loop rest m1 m2 body')))"

subsection \<open>MyAccount\<close>

definition MyAccount_gdpslist :: "pyval \<Rightarrow> server \<Rightarrow> gdps list prog" where
  "MyAccount_gdpslist page srv = auth_required (
     thn (py_assert (isinstance_int page) ''page must be an integer.'') (\<lambda>_.
     thn (py_assert (truthy page) ''page integer must be positive.'') (\<lambda>_.
     thn authorization_token (\<lambda>t.
     thn (send srv
            \<lparr>meth = GET, url = [Lit ''https://gdps.xyz/api/gdps/my''],
             params = [(''page'', page)],
             headers = [json_header, (''authorization'', bearer t)],
             data = None\<rparr>) (\<lambda>r.
     thn (if 400 \<le> status_code r then lift (raise_for_errors r []) else ret ()) (\<lambda>_.
     lift (sthn (json_data r) (\<lambda>v. sthn (py_iter v) (map_exc GDPS_new)))))))))"

text \<open>The keyword arguments default to \<^verbatim>\<open>None\<close>: an omitted one is \<open>PNone\<close>.\<close>

definition MyAccount_update ::
  "pyval \<Rightarrow> pyval \<Rightarrow> pyval \<Rightarrow> pyval \<Rightarrow> server \<Rightarrow> unit prog"
where
  "MyAccount_update email_arg password avatar username_arg srv = auth_required (
     thn (lift (update_loop [email_arg, password, avatar, username_arg]
                  ''account informations must be strings.''
                  ''do not leave argument empty after passing it.''
                  [(''email'', email_arg), (''password'', password),
                   (''username'', username_arg)])) (\<lambda>body.
     thn authorization_token (\<lambda>t.
     thn (send srv
            \<lparr>meth = PUT, url = [Lit ''https://gdps.xyz/api/account/update/''],
             params = [],
             headers = [json_header, (''authorization'', bearer t)],
             data = Some (PDict body)\<rparr>) (\<lambda>r.
     if 400 \<le> status_code r then lift (raise_for_errors r []) else ret ()))))"

definition MyAccount_delete :: "server \<Rightarrow> unit prog" where
  "MyAccount_delete srv = auth_required (
     thn authorization_token (\<lambda>t.
     thn (send srv
            \<lparr>meth = DELETE, url = [Lit ''https://gdps.xyz/api/account/delete/''],
             params = [],
             headers = [json_header, (''authorization'', bearer t)],
             data = None\<rparr>) (\<lambda>r.
     if 400 \<le> status_code r then
       thn (lift (raise_for_errors r [])) (\<lambda>_.
       if status_code r = 403
       then raise (new_exception AccountDeletionError r
                     (Some ''delete all your GDPSs before account deletion.''))
       else ret ())
     else ret ())))"

subsection \<open>Comment\<close>

definition comment_url :: "comment \<Rightarrow> fstring" where
  "comment_url c =
     [Lit ''https://gdps.xyz/api/gdps/'', Fmt (gdps_id c), Lit ''/comment/'',
      Fmt (id_comment c), Lit ''/'']"

definition comment_vote_url :: "comment \<Rightarrow> fstring" where
  "comment_vote_url c =
     [Lit ''https://gdps.xyz/api/gdps/'', Fmt (gdps_id c), Lit ''/comment/'',
      Fmt (id_comment c), Lit ''/vote/'']"

text \<open>\<^verbatim>\<open>Comment.update\<close> is the one method here that is not decorated.\<close>

definition Comment_update :: "comment \<Rightarrow> pyval \<Rightarrow> server \<Rightarrow> unit prog" where
  "Comment_update c txt srv =
     thn (py_assert (isinstance_str txt) ''text must be a string.'') (\<lambda>_.
     thn (py_assert (truthy txt) ''text can not be empty.'') (\<lambda>_.
     thn authorization_token (\<lambda>t.
     thn (send srv
            \<lparr>meth = PUT, url = comment_url c, params = [],
             headers = [json_header, (''authorization'', bearer t)],
             data = Some (PDict [(''text'', txt)])\<rparr>) (\<lambda>r.
     if 400 \<le> status_code r then lift (raise_for_errors r []) else ret ()))))"

definition Comment_delete :: "comment \<Rightarrow> server \<Rightarrow> unit prog" where
  "Comment_delete c srv = auth_required (
     thn authorization_token (\<lambda>t.
     thn (send srv
            \<lparr>meth = DELETE, url = comment_url c, params = [],
             headers = [json_header, (''authorization'', bearer t)],
             data = None\<rparr>) (\<lambda>r.
     if 400 \<le> status_code r then lift (raise_for_errors r []) else ret ())))"

definition Comment_vote :: "comment \<Rightarrow> pyval \<Rightarrow> server \<Rightarrow> unit prog" where
  "Comment_vote c vote_type srv = auth_required (
     thn (py_assert (isinstance_int vote_type) ''vote type must be an integer.'') (\<lambda>_.
     thn (py_assert (truthy vote_type) ''vote type must be like or dislike (1 or 2).'') (\<lambda>_.
     thn authorization_token (\<lambda>t.
     thn (send srv
            \<lparr>meth = POST, url = comment_vote_url c,
             params = [(''type'', vote_type)],
             headers = [json_header, (''authorization'', bearer t)],
             data = None\<rparr>) (\<lambda>r.
     if 400 \<le> status_code r then lift (raise_for_errors r []) else ret ())))))"

definition Comment_unvote :: "comment \<Rightarrow> server \<Rightarrow> unit prog" where
  "Comment_unvote c srv = auth_required (
     thn authorization_token (\<lambda>t.
     thn (send srv
            \<lparr>meth = DELETE, url = comment_vote_url c, params = [],
             headers = [json_header, (''authorization'', bearer t)],
             data = None\<rparr>) (\<lambda>r.
     if 400 \<le> status_code r then
       thn (lift (raise_for_errors r [])) (\<lambda>_.
       if status_code r = 403
       then raise (new_exception NotFound r (Some ''you have not voted.''))
       else ret ())
     else ret ())))"

subsection \<open>GDPS\<close>

definition GDPS_get_comment :: "gdps \<Rightarrow> pyval \<Rightarrow> server \<Rightarrow> comment option prog" where
  "GDPS_get_comment g comment_id srv =
     thn (py_assert (isinstance_int comment_id) ''comment id must be an integer.'') (\<lambda>_.
     thn (py_assert (truthy comment_id) ''comment id must be positive.'') (\<lambda>_.
     thn (send srv
            \<lparr>meth = GET,
             url = [Lit ''https://gdps.xyz/api/gdps/'', Fmt (id_gdps g), Lit ''/comment/'',
                    Fmt comment_id, Lit ''/''],
             params = [], headers = [], data = None\<rparr>) (\<lambda>r.
     if status_code r = 500
     then raise (new_exception InternalServerError r
                   (Some ''a server side error has occured. Contact developers for help.''))
     else
       thn (lift (json_data r)) (\<lambda>v.
       if isinstance_dict v then thn (lift (Comment_new v)) (\<lambda>c. ret (Some c))
       else ret None))))"

definition GDPS_create_comment :: "gdps \<Rightarrow> pyval \<Rightarrow> server \<Rightarrow> pyval prog" where
  "GDPS_create_comment g txt srv = auth_required (
     thn (py_assert (isinstance_str txt) ''comment text must be a string.'') (\<lambda>_.
     thn (py_assert (truthy txt) ''comment text can not be empty.'') (\<lambda>_.
     thn authorization_token (\<lambda>t.
     thn (send srv
            \<lparr>meth = POST,
             url = [Lit ''https://gdps.xyz/api/gdps/'', Fmt (id_gdps g),
                    Lit ''/comment/create/''],
             params = [],
             headers = [json_header, (''authorization'', bearer t)],
             data = Some (PDict [(''text'', txt)])\<rparr>) (\<lambda>r.
     thn (if 400 \<le> status_code r then lift (raise_for_errors r []) else ret ()) (\<lambda>_.
     lift (json_data r)))))))"

definition GDPS_get_comment_page :: "gdps \<Rightarrow> pyval \<Rightarrow> server \<Rightarrow> comment list prog" where
  "GDPS_get_comment_page g page srv =
     thn (py_assert (isinstance_int page) ''page must be an integer.'') (\<lambda>_.
     thn (py_assert (truthy page) ''page integer must be positive.'') (\<lambda>_.
     thn (send srv
            \<lparr>meth = GET,
             url = [Lit ''https://gdps.xyz/api/gdps/'', Fmt (id_gdps g),
                    Lit ''/comment/all/''],
             params = [(''page'', page)], headers = [], data = None\<rparr>) (\<lambda>r.
     thn (if 400 \<le> status_code r then lift (raise_for_errors r []) else ret ()) (\<lambda>_.
     lift (sthn (json_data r) (\<lambda>v. sthn (py_iter v) (map_exc Comment_new)))))))"

text \<open>
  The nine keyword arguments of \<^verbatim>\<open>GDPS.update\<close>, in the order of its signature:
  name, desc, link, dashboard_link, download_windows, download_android, locale,
  avatar_url, background_url.
\<close>

definition GDPS_update ::
  "gdps \<Rightarrow> pyval \<Rightarrow> pyval \<Rightarrow> pyval \<Rightarrow> pyval \<Rightarrow> pyval \<Rightarrow> pyval \<Rightarrow> pyval \<Rightarrow> pyval \<Rightarrow> pyval
     \<Rightarrow> server \<Rightarrow> unit prog"
where
  "GDPS_update g nm de link dashboard_link download_windows download_android loc avatar
     background srv = auth_required (
     thn (lift (update_loop
                  [nm, de, link, dashboard_link, download_windows, download_android, loc,
                   avatar, background]
                  ''GDPS update informations must be strings.''
                  ''do not leave argument empty after passing it.''
                  [(''name'', nm), (''desc'', de), (''link'', link),
                   (''dashboardLink'', dashboard_link),
                   (''downloadWindowsLink'', download_windows),
                   (''downloadAndroidLink'', download_android),
                   (''locale'', loc), (''avatarUrl'', avatar),
                   (''backgroundUrl'', background)])) (\<lambda>body.
     thn authorization_token (\<lambda>t.
     thn (send srv
            \<lparr>meth = PUT, url = [Lit ''https://gdps.xyz/api/gdps/'', Fmt (id_gdps g)],
             params = [],
             headers = [json_header, (''authorization'', bearer t)],
             data = Some (PDict body)\<rparr>) (\<lambda>r.
     if 400 \<le> status_code r then lift (raise_for_errors r []) else ret ()))))"

definition GDPS_delete :: "gdps \<Rightarrow> server \<Rightarrow> unit prog" where
  "GDPS_delete g srv = auth_required (
     thn authorization_token (\<lambda>t.
     thn (send srv
            \<lparr>meth = DELETE,
             url = [Lit ''https://gdps.xyz/api/gdps/'', Fmt (id_gdps g), Lit ''/''],
             params = [],
             headers = [json_header, (''authorization'', bearer t)],
             data = None\<rparr>) (\<lambda>r.
     if 400 \<le> status_code r then lift (raise_for_errors r []) else ret ())))"

definition GDPS_vote :: "gdps \<Rightarrow> pyval \<Rightarrow> server \<Rightarrow> unit prog" where
  "GDPS_vote g vote_type srv = auth_required (
     thn (py_assert (isinstance_int vote_type) ''vote type must be an integer.'') (\<lambda>_.
     thn (py_assert (truthy vote_type) ''vote type must be like or dislike (1 or 2).'') (\<lambda>_.
     thn authorization_token (\<lambda>t.
     thn (send srv
            \<lparr>meth = POST,
             url = [Lit ''https://gdps.xyz/api/gdps/'', Fmt (id_gdps g), Lit ''/vote/''],
             params = [(''type'', vote_type)],
             headers = [json_header, (''authorization'', bearer t)],
             data = None\<rparr>) (\<lambda>r.
     if 400 \<le> status_code r then lift (raise_for_errors r []) else ret ())))))"

definition GDPS_unvote :: "gdps \<Rightarrow> server \<Rightarrow> unit prog" where
  "GDPS_unvote g srv = auth_required (
     thn authorization_token (\<lambda>t.
     thn (send srv
            \<lparr>meth = DELETE,
             url = [Lit ''https://gdps.xyz/api/gdps/'', Fmt (id_gdps g), Lit ''/vote/''],
             params = [],
             headers = [json_header, (''authorization'', bearer t)],
             data = None\<rparr>) (\<lambda>r.
     if 400 \<le> status_code r then
       thn (lift (raise_for_errors r [])) (\<lambda>_.
       if status_code r = 403
       then raise (new_exception NotFound r (Some ''you have not voted.''))
       else ret ())
     else ret ())))"

subsection \<open>Module-level functions\<close>

definition get_account :: "pyval \<Rightarrow> server \<Rightarrow> account option prog" where
  "get_account account_id srv =
     thn (py_assert (isinstance_int account_id) ''account id must be an integer.'') (\<lambda>_.
     thn (py_assert (truthy account_id) ''account id must be positive.'') (\<lambda>_.
     thn (send srv
            \<lparr>meth = GET,
             url = [Lit ''https://gdps.xyz/api/account/'', Fmt account_id, Lit ''/''],
             params = [], headers = [], data = None\<rparr>) (\<lambda>r.
     if status_code r = 500
     then raise (new_exception InternalServerError r
                   (Some ''a server side error has occured. Contact developers for help.''))
     else
       thn (lift (json_data r)) (\<lambda>v.
       if isinstance_dict v then thn (lift (Account_new v)) (\<lambda>a. ret (Some a))
       else ret None))))"

definition me :: "server \<Rightarrow> my_account option prog" where
  "me srv = auth_required (
     thn authorization_token (\<lambda>t.
     thn (send srv
            \<lparr>meth = GET, url = [Lit ''https://gdps.xyz/api/account/me/''], params = [],
             headers = [json_header, (''authorization'', bearer t)],
             data = None\<rparr>) (\<lambda>r.
     thn (if 400 \<le> status_code r then lift (raise_for_errors r []) else ret ()) (\<lambda>_.
     thn (lift (json_data r)) (\<lambda>v.
     if isinstance_dict v then thn (lift (MyAccount_new v)) (\<lambda>a. ret (Some a))
     else ret None)))))"

definition authorize_request :: "pyval \<Rightarrow> pyval \<Rightarrow> request" where
  "authorize_request email_arg password =
     \<lparr>meth = POST, url = [Lit ''https://gdps.xyz/api/account/authorize/''], params = [],
      headers = [json_header],
      data = Some (PDict [(''email'', email_arg), (''password'', password)])\<rparr>"

definition authorize :: "pyval \<Rightarrow> pyval \<Rightarrow> server \<Rightarrow> nat prog" where
  "authorize email_arg password srv =
     thn (lift (assert_strs [email_arg, password]
                  ''email and password must be strings.''
                  ''email or password can not be empty.'')) (\<lambda>_.
     thn (send srv (authorize_request email_arg password)) (\<lambda>r.
     thn (if 400 \<le> status_code r then
            thn (lift (raise_for_errors r [])) (\<lambda>_.
            if status_code r = 403
            then raise (new_exception AuthorizationError r
                   (Some ''invalid email or password, or account was not activated.''))
            else ret ())
          else ret ()) (\<lambda>_.
     thn (lift (json_data r)) Session_new)))"

definition get_gdps :: "pyval \<Rightarrow> server \<Rightarrow> gdps option prog" where
  "get_gdps gid srv =
     thn (py_assert (isinstance_int gid) ''GDPS id must be an integer.'') (\<lambda>_.
     thn (py_assert (truthy gid) ''GDPS id must be positive.'') (\<lambda>_.
     thn (send srv
            \<lparr>meth = GET, url = [Lit ''https://gdps.xyz/api/gdps/'', Fmt gid, Lit ''/''],
             params = [], headers = [], data = None\<rparr>) (\<lambda>r.
     if status_code r = 500
     then raise (new_exception InternalServerError r
                   (Some ''a server side error has occured. Contact developers for help.''))
     else
       thn (lift (json_data r)) (\<lambda>v.
       if isinstance_dict v then thn (lift (GDPS_new v)) (\<lambda>g. ret (Some g))
       else ret None))))"

definition create_gdps ::
  "pyval \<Rightarrow> pyval \<Rightarrow> pyval \<Rightarrow> pyval \<Rightarrow> pyval \<Rightarrow> server \<Rightarrow> pyval prog"
where
  "create_gdps nm de link avatar background srv = auth_required (
     thn (lift (assert_strs [nm, de, link]
                  ''GDPS main informations must be strings.''
                  ''GDPS main informations can not be empty.'')) (\<lambda>_.
     thn (if truthy avatar
          then py_assert (isinstance_str avatar) ''URLs must be strings.'' else ret ()) (\<lambda>_.
     thn (if truthy background
          then py_assert (isinstance_str background) ''URLs must be strings.''
          else ret ()) (\<lambda>_.
     thn authorization_token (\<lambda>t.
     thn (send srv
            \<lparr>meth = POST, url = [Lit ''https://gdps.xyz/api/gdps/create/''], params = [],
             headers = [json_header, (''authorization'', bearer t)],
             data = Some (PDict
               ([(''name'', nm), (''desc'', de), (''link'', link)]
                @ (if truthy avatar then [(''avatarUrl'', avatar)] else [])
                @ (if truthy background then [(''backgroundUrl'', background)] else [])))\<rparr>)
       (\<lambda>r.
     thn (if 400 \<le> status_code r then lift (raise_for_errors r []) else ret ()) (\<lambda>_.
     lift (json_data r))))))))"

definition search_for_gdps :: "pyval \<Rightarrow> pyval \<Rightarrow> server \<Rightarrow> gdps list prog" where
  "search_for_gdps query page srv =
     thn (py_assert (isinstance_str query) ''search query must be a string.'') (\<lambda>_.
     thn (py_assert (truthy query) ''search query can not be empty.'') (\<lambda>_.
     thn (py_assert (isinstance_int page) ''page must be an integer.'') (\<lambda>_.
     thn (py_assert (truthy page) ''page integer must be positive.'') (\<lambda>_.
     thn (send srv
            \<lparr>meth = GET, url = [Lit ''https://gdps.xyz/api/gdps/search''],
             params = [(''urlencoded'', query), (''page'', page)],
             headers = [], data = None\<rparr>) (\<lambda>r.
     thn (if 400 \<le> status_code r then lift (raise_for_errors r []) else ret ()) (\<lambda>_.
     lift (sthn (json_data r) (\<lambda>v. sthn (py_iter v) (map_exc GDPS_new)))))))))"

section \<open>Concrete states, servers and objects\<close>

text \<open>
  The inputs at which the properties below are evaluated. \<open>initial_state\<close> is the
  module right after import: no session object, \<^verbatim>\<open>_authorization = None\<close>, nothing sent.
\<close>

definition blank_session :: session where
  "blank_session =
     \<lparr>id_session = PNone, token = PNone, refresh_token = PNone, token_expiration = PNone,
      refresh_token_expiration = PNone\<rparr>"

definition initial_state :: state where
  "initial_state =
     \<lparr>heap = (\<lambda>a. blank_session), next_addr = 0, authorization = None, sent = []\<rparr>"

definition example_session :: session where
  "example_session =
     \<lparr>id_session = PInt 7, token = PStr ''tok7'', refresh_token = PStr ''ref7'',
      token_expiration = PInt 1000, refresh_token_expiration = PInt 2000\<rparr>"

definition other_session :: session where
  "other_session =
     \<lparr>id_session = PInt 8, token = PStr ''tok8'', refresh_token = PStr ''ref8'',
      token_expiration = PInt 1500, refresh_token_expiration = PInt 2500\<rparr>"

text \<open>One session object, at address 0, published as the active session.\<close>

definition active_state :: state where
  "active_state =
     \<lparr>heap = (\<lambda>a. blank_session)(0 := example_session), next_addr = 1,
      authorization = Some 0, sent = []\<rparr>"

text \<open>Two session objects; the one at address 1 is the active session.\<close>

definition two_sessions_state :: state where
  "two_sessions_state =
     \<lparr>heap = (\<lambda>a. blank_session)(0 := example_session, 1 := other_session),
      next_addr = 2, authorization = Some 1, sent = []\<rparr>"

text \<open>A server that answers every request with the same response.\<close>

definition const_server :: "response \<Rightarrow> server" where
  "const_server r log rq = Inr r"

definition example_response :: "int \<Rightarrow> pyval \<Rightarrow> response" where
  "example_response code body = \<lparr>status_code = code, reason = ''reason'', json = Some body\<rparr>"

text \<open>A 502 answer whose body is not a JSON document.\<close>

definition bad_gateway :: response where
  "bad_gateway = \<lparr>status_code = 502, reason = ''Bad Gateway'', json = None\<rparr>"

definition token_payload :: pyval where
  "token_payload =
     PDict [(''id'', PInt 9), (''token'', PStr ''tok9''), (''refreshToken'', PStr ''ref9''),
            (''tokenExpiration'', PInt 3000), (''refreshTokenExpiration'', PInt 4000)]"

definition example_gdps :: gdps where
  "example_gdps =
     \<lparr>images_gdps = PNone, owner_gdps = PNone, links_gdps = PNone, stats_gdps = PNone,
      is_pre_moderated = PBool False, is_verified = PBool True, locale_gdps = PStr ''en'',
      name_gdps = PStr ''galaxium'', desc_gdps = PStr ''a server'', id_gdps = PInt 1,
      created_at_gdps = PInt 10, last_updated_at_gdps = PInt 20\<rparr>"

definition example_comment :: comment where
  "example_comment =
     \<lparr>author_comment = PNone, stats_comment = PNone, gdps_id = PInt 1,
      text_comment = PStr ''Hello!'', content_comment = PStr ''Hello!'', id_comment = PInt 5,
      created_at_comment = PInt 30, last_updated_at_comment = PInt 40\<rparr>"

text \<open>Two blocks for a \<^verbatim>\<open>with\<close> statement: one raises, one returns what it was given.\<close>

definition failing_block :: "nat \<Rightarrow> unit prog" where
  "failing_block x = raise ValueError"

definition returning_block :: "nat \<Rightarrow> nat prog" where
  "returning_block x = ret x"

section \<open>Properties\<close>

lemmas prog_defs = ret_def raise_def thn_def lift_def py_assert_def send_def sthn_def

subsection \<open>The generic error mapper\<close>

text \<open>
  Claim C2. For every response \<open>r\<close> and every exemption list handed to
  \<^verbatim>\<open>_raise_for_errors\<close>: a status code of the table that is not exempted raises the
  exception kind of the table (400 BadRequest, 401 NotInitialized, 404 NotFound, 406 and
  409 NotAcceptable, 429 OutOfRateLimits, 500 InternalServerError), and the exception
  carries \<open>r\<close>; every status code outside the table, 402, 403, 502 or 503 included,
  raises nothing and the mapper returns normally, as it does for an exempted code.
\<close>

theorem raise_for_errors_table:
  "(status_code r \<notin> set exc_of \<longrightarrow>
      (status_code r = 400 \<longrightarrow> (\<exists>m d. raise_for_errors r exc_of = Inl (XYZException BadRequest r m d))) \<and>
      (status_code r = 401 \<longrightarrow> (\<exists>m d. raise_for_errors r exc_of = Inl (XYZException NotInitialized r m d))) \<and>
      (status_code r = 404 \<longrightarrow> (\<exists>m d. raise_for_errors r exc_of = Inl (XYZException NotFound r m d))) \<and>
      (status_code r = 406 \<longrightarrow> (\<exists>m d. raise_for_errors r exc_of = Inl (XYZException NotAcceptable r m d))) \<and>
      (status_code r = 409 \<longrightarrow> (\<exists>m d. raise_for_errors r exc_of = Inl (XYZException NotAcceptable r m d))) \<and>
      (status_code r = 429 \<longrightarrow> (\<exists>m d. raise_for_errors r exc_of = Inl (XYZException OutOfRateLimits r m d))) \<and>
      (status_code r = 500 \<longrightarrow> (\<exists>m d. raise_for_errors r exc_of = Inl (XYZException InternalServerError r m d))))
   \<and> (status_code r \<notin> {400, 401, 404, 406, 409, 429, 500} \<longrightarrow> raise_for_errors r exc_of = Inr ())
   \<and> (status_code r \<in> set exc_of \<longrightarrow> raise_for_errors r exc_of = Inr ())"
  by (simp add: raise_for_errors_def raises_def new_exception_def)

text \<open>The mapper at each code of the table, at the unmapped 503 and at an exempted 401.\<close>

theorem raise_for_errors_table_witness:
  "(\<exists>m d. raise_for_errors (example_response 400 PNone) [] =
            Inl (XYZException BadRequest (example_response 400 PNone) m d))
   \<and> (\<exists>m d. raise_for_errors (example_response 401 PNone) [404] =
            Inl (XYZException NotInitialized (example_response 401 PNone) m d))
   \<and> (\<exists>m d. raise_for_errors (example_response 404 PNone) [] =
            Inl (XYZException NotFound (example_response 404 PNone) m d))
   \<and> (\<exists>m d. raise_for_errors (example_response 406 PNone) [] =
            Inl (XYZException NotAcceptable (example_response 406 PNone) m d))
   \<and> (\<exists>m d. raise_for_errors (example_response 409 PNone) [] =
            Inl (XYZException NotAcceptable (example_response 409 PNone) m d))
   \<and> (\<exists>m d. raise_for_errors (example_response 429 PNone) [] =
            Inl (XYZException OutOfRateLimits (example_response 429 PNone) m d))
   \<and> (\<exists>m d. raise_for_errors (example_response 500 PNone) [] =
            Inl (XYZException InternalServerError (example_response 500 PNone) m d))
   \<and> raise_for_errors (example_response 503 PNone) [] = Inr ()
   \<and> raise_for_errors (example_response 401 PNone) [401] = Inr ()"
  using raise_for_errors_table [of "example_response 400 PNone" "[]"]
    raise_for_errors_table [of "example_response 401 PNone" "[404]"]
    raise_for_errors_table [of "example_response 404 PNone" "[]"]
    raise_for_errors_table [of "example_response 406 PNone" "[]"]
    raise_for_errors_table [of "example_response 409 PNone" "[]"]
    raise_for_errors_table [of "example_response 429 PNone" "[]"]
    raise_for_errors_table [of "example_response 500 PNone" "[]"]
    raise_for_errors_table [of "example_response 503 PNone" "[]"]
    raise_for_errors_table [of "example_response 401 PNone" "[401]"]
  by (simp add: example_response_def)

subsection \<open>Closing a session\<close>

text \<open>
  Claim C10. \<^verbatim>\<open>Session.close()\<close> changes no field of any session object and leaves the
  global \<^verbatim>\<open>_authorization\<close> as it was, whether the server accepts the deletion or
  not: its only effect is the one DELETE request. So when a session was published before
  the close, the check of \<^verbatim>\<open>_auth_required\<close> still passes afterwards and the decorated
  operation runs.
\<close>

theorem Session_close_frame:
  "heap (snd (Session_close a srv st)) = heap st \<and>
   next_addr (snd (Session_close a srv st)) = next_addr st \<and>
   authorization (snd (Session_close a srv st)) = authorization st \<and>
   sent (snd (Session_close a srv st)) = sent st @ [close_request (heap st a)] \<and>
   (authorization st \<noteq> None \<longrightarrow>
      auth_required req (snd (Session_close a srv st)) = req (snd (Session_close a srv st)))"
  by (auto simp: Session_close_def prog_defs auth_required_def split: sum.splits prod.splits)

theorem Session_close_frame_witness:
  "authorization active_state \<noteq> None \<and>
   authorization (snd (Session_close 0 (const_server (example_response 200 PNone)) active_state))
     = Some 0 \<and>
   heap (snd (Session_close 0 (const_server (example_response 200 PNone)) active_state)) 0
     = example_session \<and>
   auth_required (ret ()) (snd (Session_close 0 (const_server (example_response 200 PNone)) active_state))
     = ret () (snd (Session_close 0 (const_server (example_response 200 PNone)) active_state))"
  using Session_close_frame [of 0 "const_server (example_response 200 PNone)" active_state "ret ()"]
  by (simp add: active_state_def)

subsection \<open>Refreshing a session\<close>

text \<open>The body of \<^verbatim>\<open>Session.refresh\<close>, path by path.\<close>

lemma Session_refresh_unfold:
  "Session_refresh a srv st =
     (case srv (sent st) (refresh_request (heap st a)) of
        Inl e \<Rightarrow> (Inl e, st\<lparr>sent := sent st @ [refresh_request (heap st a)]\<rparr>)
      | Inr r \<Rightarrow>
         (case json_data r of
            Inl e \<Rightarrow> (Inl e, st\<lparr>sent := sent st @ [refresh_request (heap st a)]\<rparr>)
          | Inr d \<Rightarrow>
             if truthy d then
               (case py_get d ''token'' of
                  Inl e \<Rightarrow> (Inl e, st\<lparr>sent := sent st @ [refresh_request (heap st a)]\<rparr>)
                | Inr t \<Rightarrow>
                   if authorization st = None
                   then (Inr (), st\<lparr>sent := sent st @ [refresh_request (heap st a)],
                                   heap := (heap st)(a := (heap st a)\<lparr>token := t\<rparr>)\<rparr>)
                   else (Inr (), st\<lparr>sent := sent st @ [refresh_request (heap st a)],
                                   heap := (heap st)(a := (heap st a)\<lparr>token := t\<rparr>),
                                   authorization := Some a\<rparr>))
             else if 400 \<le> status_code r then
               (case raise_for_errors r [401] of
                  Inl e \<Rightarrow> (Inl e, st\<lparr>sent := sent st @ [refresh_request (heap st a)]\<rparr>)
                | Inr x \<Rightarrow>
                   if status_code r = 401
                   then (Inl (new_exception InvalidToken r
                                (Some ''Can not refresh session. Invalid refresh token.'')),
                         st\<lparr>sent := sent st @ [refresh_request (heap st a)]\<rparr>)
                   else (Inr (), st\<lparr>sent := sent st @ [refresh_request (heap st a)]\<rparr>))
             else (Inr (), st\<lparr>sent := sent st @ [refresh_request (heap st a)]\<rparr>)))"
  by (simp add: Session_refresh_def Session_init_def prog_defs split: sum.splits)

text \<open>
  Claim C3, as amended. A \<^verbatim>\<open>Session.refresh()\<close> that returns normally has sent the one
  reauthorize request and
  \<^item> when the \<^verbatim>\<open>data\<close> field of the answer is truthy, has replaced the access token of
    that session by the \<^verbatim>\<open>token\<close> of \<^verbatim>\<open>data\<close> and nothing else in the store (its id,
    refresh token and both expirations, and every other session, are unchanged), and
    has published that session as the active one if and only if some session, this
    one or any other, was active before; with no active session the global stays
    \<^verbatim>\<open>None\<close>;
  \<^item> otherwise has changed neither the store nor the global.
\<close>

theorem Session_refresh_frame:
  assumes run: "Session_refresh a srv st = (Inr u, st')"
  shows "\<exists>r d. srv (sent st) (refresh_request (heap st a)) = Inr r \<and> json_data r = Inr d \<and>
          sent st' = sent st @ [refresh_request (heap st a)] \<and> next_addr st' = next_addr st \<and>
          (if truthy d
           then \<exists>t. py_get d ''token'' = Inr t \<and>
                  heap st' = (heap st)(a := (heap st a)\<lparr>token := t\<rparr>) \<and>
                  authorization st' = (if authorization st = None then None else Some a)
           else heap st' = heap st \<and> authorization st' = authorization st)"
proof (cases "srv (sent st) (refresh_request (heap st a))")
  case (Inl e)
  with run show ?thesis
    by (simp add: Session_refresh_unfold)
next
  case (Inr r)
  note srv = this
  show ?thesis
  proof (cases "json_data r")
    case (Inl e)
    with run srv show ?thesis
      by (simp add: Session_refresh_unfold)
  next
    case (Inr d)
    note jd = this
    show ?thesis
    proof (cases "truthy d")
      case True
      show ?thesis
      proof (cases "py_get d ''token''")
        case (Inl e)
        with run srv jd True show ?thesis
          by (simp add: Session_refresh_unfold)
      next
        case (Inr t)
        with run srv jd True show ?thesis
          by (auto simp: Session_refresh_unfold split: if_splits)
      qed
    next
      case False
      with run srv jd show ?thesis
        by (auto simp: Session_refresh_unfold split: if_splits sum.splits)
    qed
  qed
qed

theorem Session_refresh_frame_witness:
  "Session_refresh 0 (const_server (example_response 200 (PDict [(''data'', token_payload)])))
      active_state
    = (Inr (), snd (Session_refresh 0
         (const_server (example_response 200 (PDict [(''data'', token_payload)]))) active_state))
   \<and> authorization (snd (Session_refresh 0
         (const_server (example_response 200 (PDict [(''data'', token_payload)]))) active_state))
       = Some 0
   \<and> heap (snd (Session_refresh 0
         (const_server (example_response 200 (PDict [(''data'', token_payload)]))) active_state))
       = (heap active_state)(0 := (heap active_state 0)\<lparr>token := PStr ''tok9''\<rparr>)"
proof -
  let ?srv = "const_server (example_response 200 (PDict [(''data'', token_payload)]))"
  have run: "Session_refresh 0 ?srv active_state
               = (Inr (), snd (Session_refresh 0 ?srv active_state))"
    by (simp add: Session_refresh_unfold const_server_def example_response_def json_data_def
          token_payload_def dict_get_def active_state_def)
  show ?thesis
    using run Session_refresh_frame [OF run]
    by (auto simp: const_server_def example_response_def json_data_def token_payload_def
          dict_get_def active_state_def)
qed

text \<open>
  Claim C3 as stated fails: with the session at address 1 active, a successful refresh of
  the session at address 0 makes that one the active session.
\<close>

theorem Session_refresh_hijacks_counterexample:
  "authorization two_sessions_state = Some 1
   \<and> fst (Session_refresh 0
         (const_server (example_response 200 (PDict [(''data'', token_payload)])))
         two_sessions_state) = Inr ()
   \<and> authorization (snd (Session_refresh 0
         (const_server (example_response 200 (PDict [(''data'', token_payload)])))
         two_sessions_state)) = Some 0"
  by (simp add: Session_refresh_unfold const_server_def example_response_def json_data_def
        token_payload_def dict_get_def two_sessions_state_def)

subsection \<open>The session as a lexical scope\<close>

lemma Session_enter_publishes:
  "Session_enter a st = (Inr a, st\<lparr>authorization := Some a\<rparr>)"
  by (simp add: Session_enter_def Session_init_def thn_def ret_def)

lemma Session_exit_exception:
  "Session_exit a (Some e) srv st = (Inr False, st)"
  by (simp add: Session_exit_def thn_def ret_def)

lemma Session_exit_normal:
  "Session_exit a None srv st =
     (case Session_close a srv st of
        (Inl e, st') \<Rightarrow> (Inl e, st')
      | (Inr u, st') \<Rightarrow> (Inr False, st'))"
  by (simp add: Session_exit_def thn_def ret_def split: prod.splits sum.splits)

lemma Session_close_sent:
  "sent (snd (Session_close a srv st)) = sent st @ [close_request (heap st a)]"
  by (auto simp: Session_close_def prog_defs split: sum.splits prod.splits)

text \<open>
  Claim C9. With a session used as the context manager of a \<^verbatim>\<open>with\<close> block, entering
  publishes it as the active session (the block runs in that state). When the block
  raises, \<^verbatim>\<open>close()\<close> is skipped, so nothing is sent after the block, and the
  exception of the block propagates unchanged. When the block returns, \<^verbatim>\<open>close()\<close>
  runs once on the state the block left: its one DELETE request follows the requests
  of the block, and the statement ends as the close ends.
\<close>

theorem with_session_exits:
  "Session_enter a st = (Inr a, st\<lparr>authorization := Some a\<rparr>)
   \<and> (block a (st\<lparr>authorization := Some a\<rparr>) = (Inl e, st2) \<longrightarrow>
        with_session a block srv st = (Inl e, st2))
   \<and> (block a (st\<lparr>authorization := Some a\<rparr>) = (Inr v, st2) \<longrightarrow>
        with_session a block srv st =
          (case Session_close a srv st2 of
             (Inl e', st3) \<Rightarrow> (Inl e', st3)
           | (Inr u, st3) \<Rightarrow> (Inr (Some v), st3))
        \<and> sent (snd (with_session a block srv st)) = sent st2 @ [close_request (heap st2 a)])"
proof -
  have exc: "with_session a block srv st = (Inl e, st2)"
    if "block a (st\<lparr>authorization := Some a\<rparr>) = (Inl e, st2)"
    using that
    by (simp add: with_session_def thn_def Session_enter_publishes Session_exit_exception)
  have ok: "with_session a block srv st =
          (case Session_close a srv st2 of
             (Inl e', st3) \<Rightarrow> (Inl e', st3)
           | (Inr u, st3) \<Rightarrow> (Inr (Some v), st3))"
    if "block a (st\<lparr>authorization := Some a\<rparr>) = (Inr v, st2)"
    using that
    by (simp add: with_session_def thn_def Session_enter_publishes Session_exit_normal
          split: sum.splits prod.splits)
  have ok2: "sent (snd (with_session a block srv st)) = sent st2 @ [close_request (heap st2 a)]"
    if b: "block a (st\<lparr>authorization := Some a\<rparr>) = (Inr v, st2)"
  proof (cases "Session_close a srv st2")
    case (Pair res st3)
    then have "snd (with_session a block srv st) = st3"
      unfolding ok[OF b] by (cases res) simp_all
    with Pair Session_close_sent[of a srv st2] show ?thesis by simp
  qed
  show ?thesis using Session_enter_publishes exc ok ok2 by blast
qed

theorem with_session_exits_witness:
  "with_session 0 failing_block (const_server (example_response 200 PNone)) two_sessions_state
     = (Inl ValueError, two_sessions_state\<lparr>authorization := Some 0\<rparr>)
   \<and> sent (snd (with_session 0 returning_block (const_server (example_response 200 PNone))
                  two_sessions_state))
     = [close_request example_session]"
  using with_session_exits [of 0 two_sessions_state failing_block ValueError
          "two_sessions_state\<lparr>authorization := Some 0\<rparr>"
          "const_server (example_response 200 PNone)"]
    with_session_exits [of 0 two_sessions_state returning_block _
          "two_sessions_state\<lparr>authorization := Some 0\<rparr>"
          "const_server (example_response 200 PNone)" 0]
  by (simp add: failing_block_def returning_block_def raise_def ret_def two_sessions_state_def
        Session_close_def thn_def send_def const_server_def example_response_def)

subsection \<open>Authorizing\<close>

lemma raise_for_errors_unmapped:
  "status_code r \<notin> {400, 401, 404, 406, 409, 429, 500} \<Longrightarrow> raise_for_errors r xs = Inr ()"
  by (simp add: raise_for_errors_def raises_def)

lemma raise_for_errors_500:
  "status_code r = 500 \<Longrightarrow> 500 \<notin> set xs \<Longrightarrow>
   raise_for_errors r xs =
     Inl (new_exception InternalServerError r
            (Some ''a server side error has occured. Contact developers for help.''))"
  by (simp add: raise_for_errors_def raises_def)

lemma authorize_unfold:
  assumes "isinstance_str email_arg" "truthy email_arg" "isinstance_str password" "truthy password"
    and "srv (sent st) (authorize_request email_arg password) = Inr r"
  shows "authorize email_arg password srv st =
     (if 400 \<le> status_code r then
        (case raise_for_errors r [] of
           Inl e \<Rightarrow> (Inl e, st\<lparr>sent := sent st @ [authorize_request email_arg password]\<rparr>)
         | Inr u \<Rightarrow>
            if status_code r = 403
            then (Inl (new_exception AuthorizationError r
                         (Some ''invalid email or password, or account was not activated.'')),
                  st\<lparr>sent := sent st @ [authorize_request email_arg password]\<rparr>)
            else thn (lift (json_data r)) Session_new
                   (st\<lparr>sent := sent st @ [authorize_request email_arg password]\<rparr>))
      else thn (lift (json_data r)) Session_new
             (st\<lparr>sent := sent st @ [authorize_request email_arg password]\<rparr>))"
  using assms
  by (simp add: authorize_def thn_def lift_def send_def ret_def raise_def split: sum.splits)

lemma Session_new_dict:
  "Session_new (PDict d) st =
     (Inr (next_addr st),
      st\<lparr>heap := (heap st)(next_addr st :=
            \<lparr>id_session = dict_get d ''id'', token = dict_get d ''token'',
             refresh_token = dict_get d ''refreshToken'',
             token_expiration = dict_get d ''tokenExpiration'',
             refresh_token_expiration = dict_get d ''refreshTokenExpiration''\<rparr>),
         next_addr := Suc (next_addr st)\<rparr>)"
  by (simp add: Session_new_def Session_fields_def sthn_def)

text \<open>
  Claim C7, as amended. \<^verbatim>\<open>authorize(email, password)\<close>, called with two non-empty
  strings, sends one request and then
  \<^item> raises AuthorizationError, carrying the response, when the server answers 403;
  \<^item> raises InternalServerError when the server answers 500;
  \<^item> for every status code outside the mapping table and other than 403, so for 501,
    502, 503 and every other 5xx as for 2xx, raises no error condition for the status
    and decodes the response as it decodes a success;
  \<^item> on a 2xx answer whose JSON body is an object with an object in \<^verbatim>\<open>data\<close> returns
    a new Session built from the fields of \<^verbatim>\<open>data\<close>.
\<close>

theorem authorize_outcomes:
  assumes "isinstance_str email_arg" "truthy email_arg" "isinstance_str password" "truthy password"
    and "srv (sent st) (authorize_request email_arg password) = Inr r"
  shows "(status_code r = 403 \<longrightarrow>
            authorize email_arg password srv st =
              (Inl (new_exception AuthorizationError r
                      (Some ''invalid email or password, or account was not activated.'')),
               st\<lparr>sent := sent st @ [authorize_request email_arg password]\<rparr>))
       \<and> (status_code r = 500 \<longrightarrow>
            authorize email_arg password srv st =
              (Inl (new_exception InternalServerError r
                      (Some ''a server side error has occured. Contact developers for help.'')),
               st\<lparr>sent := sent st @ [authorize_request email_arg password]\<rparr>))
       \<and> (status_code r \<notin> {400, 401, 403, 404, 406, 409, 429, 500} \<longrightarrow>
            authorize email_arg password srv st =
              thn (lift (json_data r)) Session_new
                (st\<lparr>sent := sent st @ [authorize_request email_arg password]\<rparr>))
       \<and> (status_code r < 400 \<longrightarrow> json r = Some (PDict body) \<longrightarrow>
            dict_get body ''data'' = PDict d \<longrightarrow>
            authorize email_arg password srv st =
              (Inr (next_addr st),
               st\<lparr>sent := sent st @ [authorize_request email_arg password],
                  heap := (heap st)(next_addr st :=
                    \<lparr>id_session = dict_get d ''id'', token = dict_get d ''token'',
                     refresh_token = dict_get d ''refreshToken'',
                     token_expiration = dict_get d ''tokenExpiration'',
                     refresh_token_expiration = dict_get d ''refreshTokenExpiration''\<rparr>),
                  next_addr := Suc (next_addr st)\<rparr>))"
proof -
  note unf = authorize_unfold [of email_arg password srv st r, OF assms]
  have c403: "status_code r = 403 \<Longrightarrow> authorize email_arg password srv st =
              (Inl (new_exception AuthorizationError r
                      (Some ''invalid email or password, or account was not activated.'')),
               st\<lparr>sent := sent st @ [authorize_request email_arg password]\<rparr>)"
    by (simp add: unf raise_for_errors_unmapped)
  have c500: "status_code r = 500 \<Longrightarrow> authorize email_arg password srv st =
              (Inl (new_exception InternalServerError r
                      (Some ''a server side error has occured. Contact developers for help.'')),
               st\<lparr>sent := sent st @ [authorize_request email_arg password]\<rparr>)"
    by (simp add: unf raise_for_errors_500)
  have cother: "status_code r \<notin> {400, 401, 403, 404, 406, 409, 429, 500} \<Longrightarrow>
            authorize email_arg password srv st =
              thn (lift (json_data r)) Session_new
                (st\<lparr>sent := sent st @ [authorize_request email_arg password]\<rparr>)"
    by (simp add: unf raise_for_errors_unmapped)
  have cok: "status_code r < 400 \<Longrightarrow> json r = Some (PDict body) \<Longrightarrow>
            dict_get body ''data'' = PDict d \<Longrightarrow>
            authorize email_arg password srv st =
              (Inr (next_addr st),
               st\<lparr>sent := sent st @ [authorize_request email_arg password],
                  heap := (heap st)(next_addr st :=
                    \<lparr>id_session = dict_get d ''id'', token = dict_get d ''token'',
                     refresh_token = dict_get d ''refreshToken'',
                     token_expiration = dict_get d ''tokenExpiration'',
                     refresh_token_expiration = dict_get d ''refreshTokenExpiration''\<rparr>),
                  next_addr := Suc (next_addr st)\<rparr>)"
    by (simp add: unf json_data_def thn_def lift_def Session_new_dict)
  show ?thesis using c403 c500 cother cok by blast
qed

theorem authorize_outcomes_witness:
  "fst (authorize (PStr ''user@gdps.xyz'') (PStr ''secret'')
          (const_server (example_response 403 PNone)) initial_state)
     = Inl (new_exception AuthorizationError (example_response 403 PNone)
              (Some ''invalid email or password, or account was not activated.''))
   \<and> fst (authorize (PStr ''user@gdps.xyz'') (PStr ''secret'')
          (const_server (example_response 500 PNone)) initial_state)
     = Inl (new_exception InternalServerError (example_response 500 PNone)
              (Some ''a server side error has occured. Contact developers for help.''))
   \<and> fst (authorize (PStr ''user@gdps.xyz'') (PStr ''secret'')
          (const_server (example_response 503 PNone)) initial_state)
     = Inl AttributeError
   \<and> fst (authorize (PStr ''user@gdps.xyz'') (PStr ''secret'')
          (const_server (example_response 200 (PDict [(''data'', token_payload)])))
          initial_state)
     = Inr 0"
proof -
  have s: "isinstance_str (PStr ''user@gdps.xyz'')" "truthy (PStr ''user@gdps.xyz'')"
    "isinstance_str (PStr ''secret'')" "truthy (PStr ''secret'')"
    by simp_all
  have srv: "const_server r (sent initial_state)
               (authorize_request (PStr ''user@gdps.xyz'') (PStr ''secret'')) = Inr r" for r
    by (simp add: const_server_def)
  note t = authorize_outcomes [of "PStr ''user@gdps.xyz''" "PStr ''secret''" "const_server r"
              initial_state r for r, OF s srv]
  show ?thesis
    using t [of "example_response 403 PNone"] t [of "example_response 500 PNone"]
      t [of "example_response 503 PNone"]
      t [of "example_response 200 (PDict [(''data'', token_payload)])"
           "[(''data'', token_payload)]"
           "[(''id'', PInt 9), (''token'', PStr ''tok9''), (''refreshToken'', PStr ''ref9''),
             (''tokenExpiration'', PInt 3000), (''refreshTokenExpiration'', PInt 4000)]"]
    by (simp add: example_response_def token_payload_def dict_get_def json_data_def thn_def
          lift_def Session_new_def Session_fields_def sthn_def initial_state_def)
qed

text \<open>
  Claim C7 as stated fails for a 5xx answer other than 500: on a 502 whose body holds a
  token in \<^verbatim>\<open>data\<close>, \<^verbatim>\<open>authorize\<close> raises nothing and returns a Session.
\<close>

theorem authorize_502_counterexample:
  "fst (authorize (PStr ''user@gdps.xyz'') (PStr ''secret'')
          (const_server (example_response 502 (PDict [(''data'', token_payload)])))
          initial_state) = Inr 0"
  by (simp add: authorize_def thn_def lift_def send_def ret_def raise_def const_server_def
        example_response_def raise_for_errors_def raises_def json_data_def token_payload_def
        Session_new_dict initial_state_def dict_get_def)

subsection \<open>Fetching by id\<close>

lemma get_gdps_result:
  "n \<noteq> 0 \<Longrightarrow> fst (get_gdps (PInt n) (const_server r) st) =
     (if status_code r = 500
      then Inl (new_exception InternalServerError r
                  (Some ''a server side error has occured. Contact developers for help.''))
      else case json_data r of
             Inl e \<Rightarrow> Inl e
           | Inr v \<Rightarrow>
               if isinstance_dict v
               then (case GDPS_new v of Inl e \<Rightarrow> Inl e | Inr x \<Rightarrow> Inr (Some x))
               else Inr None)"
  by (simp add: get_gdps_def prog_defs const_server_def split: sum.splits)

lemma get_account_result:
  "n \<noteq> 0 \<Longrightarrow> fst (get_account (PInt n) (const_server r) st) =
     (if status_code r = 500
      then Inl (new_exception InternalServerError r
                  (Some ''a server side error has occured. Contact developers for help.''))
      else case json_data r of
             Inl e \<Rightarrow> Inl e
           | Inr v \<Rightarrow>
               if isinstance_dict v
               then (case Account_new v of Inl e \<Rightarrow> Inl e | Inr x \<Rightarrow> Inr (Some x))
               else Inr None)"
  by (simp add: get_account_def prog_defs const_server_def split: sum.splits)

lemma GDPS_get_comment_result:
  "n \<noteq> 0 \<Longrightarrow> fst (GDPS_get_comment g (PInt n) (const_server r) st) =
     (if status_code r = 500
      then Inl (new_exception InternalServerError r
                  (Some ''a server side error has occured. Contact developers for help.''))
      else case json_data r of
             Inl e \<Rightarrow> Inl e
           | Inr v \<Rightarrow>
               if isinstance_dict v
               then (case Comment_new v of Inl e \<Rightarrow> Inl e | Inr x \<Rightarrow> Inr (Some x))
               else Inr None)"
  by (simp add: GDPS_get_comment_def prog_defs const_server_def split: sum.splits)

lemma py_get2_dict:
  "py_get2 (PDict d) ''timestamps'' k =
     (if timestamps_decodable d
      then Inr (case map_of d ''timestamps'' of
                  None \<Rightarrow> PNone
                | Some w \<Rightarrow> (case w of PDict t \<Rightarrow> dict_get t k | _ \<Rightarrow> PNone))
      else Inl AttributeError)"
proof (cases "map_of d ''timestamps''")
  case None
  then show ?thesis by (simp add: py_get2_def timestamps_decodable_def)
next
  case (Some w)
  then show ?thesis by (cases w) (simp_all add: py_get2_def timestamps_decodable_def)
qed

lemma GDPS_new_decodable:
  "timestamps_decodable d \<Longrightarrow> \<exists>x. GDPS_new (PDict d) = Inr x"
  by (simp add: GDPS_new_def sthn_def py_get2_dict)

lemma GDPS_new_undecodable:
  "\<not> timestamps_decodable d \<Longrightarrow> GDPS_new (PDict d) = Inl AttributeError"
  by (simp add: GDPS_new_def sthn_def py_get2_dict)

lemma Comment_new_decodable:
  "timestamps_decodable d \<Longrightarrow> \<exists>x. Comment_new (PDict d) = Inr x"
  by (simp add: Comment_new_def sthn_def py_get2_dict)

lemma Comment_new_undecodable:
  "\<not> timestamps_decodable d \<Longrightarrow> Comment_new (PDict d) = Inl AttributeError"
  by (simp add: Comment_new_def sthn_def py_get2_dict)

lemma Account_new_dict: "\<exists>y. Account_new (PDict d) = Inr y"
  by (simp add: Account_new_def sthn_def)

lemma json_data_not_json: "json r = None \<Longrightarrow> json_data r = Inl JSONDecodeError"
  by (simp add: json_data_def)

lemma json_data_not_object:
  "json r = Some b \<Longrightarrow> \<not> isinstance_dict b \<Longrightarrow> json_data r = Inl AttributeError"
  by (cases b) (simp_all add: json_data_def)

lemma json_data_object: "json r = Some (PDict b) \<Longrightarrow> json_data r = Inr (dict_get b ''data'')"
  by (simp add: json_data_def)

text \<open>
  Claim C8, as amended. For every positive integer id, the answer alone decides what
  \<^verbatim>\<open>get_gdps\<close>, \<^verbatim>\<open>get_account\<close> and \<^verbatim>\<open>GDPS.get_comment\<close> do. A 500 answer raises
  InternalServerError. Any other answer, whatever its status code,
  \<^item> raises JSONDecodeError when its body is not a JSON document;
  \<^item> raises AttributeError when its JSON body is not an object;
  \<^item> returns \<^verbatim>\<open>None\<close> when the body is an object whose \<^verbatim>\<open>data\<close> is absent or is not
    an object;
  \<^item> returns the decoded object when \<^verbatim>\<open>data\<close> is an object, except that \<^verbatim>\<open>get_gdps\<close>
    and \<^verbatim>\<open>GDPS.get_comment\<close> raise AttributeError when \<^verbatim>\<open>data\<close> has a
    \<^verbatim>\<open>timestamps\<close> that is not an object.
  So \<^verbatim>\<open>None\<close> is the result for a missing object, and equally for every other
  failure answered with a status other than 500 and a JSON object without an object in
  \<^verbatim>\<open>data\<close>: no status but 500 is raised as an exception of the taxonomy.
\<close>

theorem fetch_by_id_outcomes:
  assumes "0 < n"
  shows "(status_code r = 500 \<longrightarrow>
            fst (get_gdps (PInt n) (const_server r) st) =
              Inl (new_exception InternalServerError r
                     (Some ''a server side error has occured. Contact developers for help.''))
          \<and> fst (get_account (PInt n) (const_server r) st) =
              Inl (new_exception InternalServerError r
                     (Some ''a server side error has occured. Contact developers for help.''))
          \<and> fst (GDPS_get_comment g (PInt n) (const_server r) st) =
              Inl (new_exception InternalServerError r
                     (Some ''a server side error has occured. Contact developers for help.'')))
       \<and> (status_code r \<noteq> 500 \<longrightarrow> json r = None \<longrightarrow>
            fst (get_gdps (PInt n) (const_server r) st) = Inl JSONDecodeError
          \<and> fst (get_account (PInt n) (const_server r) st) = Inl JSONDecodeError
          \<and> fst (GDPS_get_comment g (PInt n) (const_server r) st) = Inl JSONDecodeError)
       \<and> (status_code r \<noteq> 500 \<longrightarrow> json r = Some b \<longrightarrow> \<not> isinstance_dict b \<longrightarrow>
            fst (get_gdps (PInt n) (const_server r) st) = Inl AttributeError
          \<and> fst (get_account (PInt n) (const_server r) st) = Inl AttributeError
          \<and> fst (GDPS_get_comment g (PInt n) (const_server r) st) = Inl AttributeError)
       \<and> (status_code r \<noteq> 500 \<longrightarrow> json r = Some (PDict body) \<longrightarrow>
            \<not> isinstance_dict (dict_get body ''data'') \<longrightarrow>
            fst (get_gdps (PInt n) (const_server r) st) = Inr None
          \<and> fst (get_account (PInt n) (const_server r) st) = Inr None
          \<and> fst (GDPS_get_comment g (PInt n) (const_server r) st) = Inr None)
       \<and> (status_code r \<noteq> 500 \<longrightarrow> json r = Some (PDict body) \<longrightarrow>
            dict_get body ''data'' = PDict d \<longrightarrow>
            (\<exists>y. Account_new (PDict d) = Inr y
                \<and> fst (get_account (PInt n) (const_server r) st) = Inr (Some y))
          \<and> (timestamps_decodable d \<longrightarrow>
                (\<exists>x. GDPS_new (PDict d) = Inr x
                    \<and> fst (get_gdps (PInt n) (const_server r) st) = Inr (Some x))
              \<and> (\<exists>z. Comment_new (PDict d) = Inr z
                    \<and> fst (GDPS_get_comment g (PInt n) (const_server r) st) = Inr (Some z)))
          \<and> (\<not> timestamps_decodable d \<longrightarrow>
                fst (get_gdps (PInt n) (const_server r) st) = Inl AttributeError
              \<and> fst (GDPS_get_comment g (PInt n) (const_server r) st) = Inl AttributeError))"
proof -
  from assms have n: "n \<noteq> 0" by simp
  note res = get_gdps_result [OF n] get_account_result [OF n] GDPS_get_comment_result [OF n]
  have c500: "status_code r = 500 \<Longrightarrow>
            fst (get_gdps (PInt n) (const_server r) st) =
              Inl (new_exception InternalServerError r
                     (Some ''a server side error has occured. Contact developers for help.''))
          \<and> fst (get_account (PInt n) (const_server r) st) =
              Inl (new_exception InternalServerError r
                     (Some ''a server side error has occured. Contact developers for help.''))
          \<and> fst (GDPS_get_comment g (PInt n) (const_server r) st) =
              Inl (new_exception InternalServerError r
                     (Some ''a server side error has occured. Contact developers for help.''))"
    by (simp add: res)
  have cnojson: "status_code r \<noteq> 500 \<Longrightarrow> json r = None \<Longrightarrow>
            fst (get_gdps (PInt n) (const_server r) st) = Inl JSONDecodeError
          \<and> fst (get_account (PInt n) (const_server r) st) = Inl JSONDecodeError
          \<and> fst (GDPS_get_comment g (PInt n) (const_server r) st) = Inl JSONDecodeError"
    by (simp add: res json_data_not_json)
  have cnoobj: "status_code r \<noteq> 500 \<Longrightarrow> json r = Some b \<Longrightarrow> \<not> isinstance_dict b \<Longrightarrow>
            fst (get_gdps (PInt n) (const_server r) st) = Inl AttributeError
          \<and> fst (get_account (PInt n) (const_server r) st) = Inl AttributeError
          \<and> fst (GDPS_get_comment g (PInt n) (const_server r) st) = Inl AttributeError"
    by (simp add: res json_data_not_object)
  have cnone: "status_code r \<noteq> 500 \<Longrightarrow> json r = Some (PDict body) \<Longrightarrow>
            \<not> isinstance_dict (dict_get body ''data'') \<Longrightarrow>
            fst (get_gdps (PInt n) (const_server r) st) = Inr None
          \<and> fst (get_account (PInt n) (const_server r) st) = Inr None
          \<and> fst (GDPS_get_comment g (PInt n) (const_server r) st) = Inr None"
    by (simp add: res json_data_object)
  have cacc: "status_code r \<noteq> 500 \<Longrightarrow> json r = Some (PDict body) \<Longrightarrow>
            dict_get body ''data'' = PDict d \<Longrightarrow>
            \<exists>y. Account_new (PDict d) = Inr y
                \<and> fst (get_account (PInt n) (const_server r) st) = Inr (Some y)"
    using Account_new_dict [of d] by (auto simp: res json_data_object)
  have cgdps: "status_code r \<noteq> 500 \<Longrightarrow> json r = Some (PDict body) \<Longrightarrow>
            dict_get body ''data'' = PDict d \<Longrightarrow> timestamps_decodable d \<Longrightarrow>
            \<exists>x. GDPS_new (PDict d) = Inr x
                \<and> fst (get_gdps (PInt n) (const_server r) st) = Inr (Some x)"
    using GDPS_new_decodable [of d] by (auto simp: res json_data_object)
  have ccom: "status_code r \<noteq> 500 \<Longrightarrow> json r = Some (PDict body) \<Longrightarrow>
            dict_get body ''data'' = PDict d \<Longrightarrow> timestamps_decodable d \<Longrightarrow>
            \<exists>z. Comment_new (PDict d) = Inr z
                \<and> fst (GDPS_get_comment g (PInt n) (const_server r) st) = Inr (Some z)"
    using Comment_new_decodable [of d] by (auto simp: res json_data_object)
  have cbad: "status_code r \<noteq> 500 \<Longrightarrow> json r = Some (PDict body) \<Longrightarrow>
            dict_get body ''data'' = PDict d \<Longrightarrow> \<not> timestamps_decodable d \<Longrightarrow>
            fst (get_gdps (PInt n) (const_server r) st) = Inl AttributeError
          \<and> fst (GDPS_get_comment g (PInt n) (const_server r) st) = Inl AttributeError"
    by (simp add: res json_data_object GDPS_new_undecodable Comment_new_undecodable)
  show ?thesis
    using c500 cnojson cnoobj cnone cacc cgdps ccom cbad by blast
qed

theorem fetch_by_id_outcomes_witness:
  "fst (get_gdps (PInt 1) (const_server (example_response 500 PNone)) initial_state)
     = Inl (new_exception InternalServerError (example_response 500 PNone)
              (Some ''a server side error has occured. Contact developers for help.''))
   \<and> fst (get_gdps (PInt 1) (const_server bad_gateway) initial_state) = Inl JSONDecodeError
   \<and> fst (get_account (PInt 1) (const_server (example_response 404 PNone)) initial_state)
     = Inl AttributeError
   \<and> fst (GDPS_get_comment example_gdps (PInt 1)
            (const_server (example_response 429 (PDict []))) initial_state)
     = Inr None
   \<and> fst (get_gdps (PInt 1)
            (const_server (example_response 200 (PDict [(''data'', PDict [(''id'', PInt 1)])])))
            initial_state)
     = Inr (Some \<lparr>images_gdps = PNone, owner_gdps = PNone, links_gdps = PNone,
                  stats_gdps = PNone, is_pre_moderated = PNone, is_verified = PNone,
                  locale_gdps = PNone, name_gdps = PNone, desc_gdps = PNone, id_gdps = PInt 1,
                  created_at_gdps = PNone, last_updated_at_gdps = PNone\<rparr>)
   \<and> fst (get_account (PInt 1)
            (const_server (example_response 200 (PDict [(''data'', PDict [(''id'', PInt 1)])])))
            initial_state)
     = Inr (Some \<lparr>permission_level = PNone, username = PNone, avatar_url = PNone,
                  id_account = PInt 1, created_at_account = PNone,
                  last_updated_at_account = PNone\<rparr>)
   \<and> fst (GDPS_get_comment example_gdps (PInt 1)
            (const_server (example_response 200 (PDict [(''data'', PDict [(''id'', PInt 1)])])))
            initial_state)
     = Inr (Some \<lparr>author_comment = PNone, stats_comment = PNone, gdps_id = PNone,
                  text_comment = PNone, content_comment = PNone, id_comment = PInt 1,
                  created_at_comment = PNone, last_updated_at_comment = PNone\<rparr>)
   \<and> fst (get_gdps (PInt 1)
            (const_server
               (example_response 200 (PDict [(''data'', PDict [(''timestamps'', PNone)])])))
            initial_state)
     = Inl AttributeError"
proof -
  have pos: "(0::int) < 1" by simp
  note t = fetch_by_id_outcomes [OF pos]
  show ?thesis
    using t [where r = "example_response 500 PNone" and st = initial_state and g = example_gdps]
      t [where r = bad_gateway and st = initial_state and g = example_gdps]
      t [where r = "example_response 404 PNone" and st = initial_state and g = example_gdps
           and b = PNone]
      t [where r = "example_response 429 (PDict [])" and st = initial_state
           and g = example_gdps and body = "[]"]
      t [where r = "example_response 200 (PDict [(''data'', PDict [(''id'', PInt 1)])])"
           and st = initial_state and g = example_gdps
           and body = "[(''data'', PDict [(''id'', PInt 1)])]" and d = "[(''id'', PInt 1)]"]
      t [where r = "example_response 200 (PDict [(''data'', PDict [(''timestamps'', PNone)])])"
           and st = initial_state and g = example_gdps
           and body = "[(''data'', PDict [(''timestamps'', PNone)])]"
           and d = "[(''timestamps'', PNone)]"]
    by (simp add: example_response_def bad_gateway_def dict_get_def timestamps_decodable_def
          GDPS_new_def Account_new_def Comment_new_def py_get2_def sthn_def)
qed

text \<open>
  Claim C8 as stated fails: a 429 answer (out of rate limits) yields the same \<^verbatim>\<open>None\<close>
  as a 404 answer, and no exception.
\<close>

theorem fetch_by_id_rate_limited_counterexample:
  "fst (get_gdps (PInt 1) (const_server (example_response 429 (PDict []))) initial_state)
     = Inr None
   \<and> fst (get_gdps (PInt 1) (const_server (example_response 404 (PDict []))) initial_state)
     = Inr None
   \<and> fst (get_account (PInt 1) (const_server (example_response 429 (PDict []))) initial_state)
     = Inr None
   \<and> fst (GDPS_get_comment example_gdps (PInt 1)
            (const_server (example_response 429 (PDict []))) initial_state)
     = Inr None"
  by (simp add: get_gdps_result get_account_result GDPS_get_comment_result example_response_def
        json_data_def dict_get_def)

subsection \<open>Calls without a published session\<close>

lemma auth_required_unpublished:
  "authorization st = None \<Longrightarrow> auth_required req st = (Inl AttributeError, st)"
  by (simp add: auth_required_def raised_def raise_def)

lemma auth_required_published:
  "authorization st = Some a \<Longrightarrow> auth_required req st = req st"
  by (simp add: auth_required_def)

lemma initial_unpublished: "authorization initial_state = None"
  by (simp add: initial_state_def)

lemma active_published: "authorization active_state = Some 0"
  by (simp add: active_state_def)

lemma active_sent: "sent active_state = []"
  by (simp add: active_state_def)

text \<open>
  Claim C1, evaluated. With no session published, each of the fourteen operations
  documented as requiring authorization fails before any request is sent, but with an
  AttributeError and not with NotInitialized: the decorator builds
  \<^verbatim>\<open>errors.NotInitialized\<close> from the message alone, and the constructor fails on
  \<^verbatim>\<open>res.status_code\<close>; \<^verbatim>\<open>Comment.update\<close> is not decorated and fails on
  \<^verbatim>\<open>_authorization.token\<close>.
\<close>

theorem unpublished_calls_raise_AttributeError:
  "me (const_server (example_response 200 PNone)) initial_state
     = (Inl AttributeError, initial_state)
   \<and> create_gdps (PStr ''n'') (PStr ''d'') (PStr ''l'') PNone PNone
        (const_server (example_response 200 PNone)) initial_state
     = (Inl AttributeError, initial_state)
   \<and> MyAccount_gdpslist (PInt 1) (const_server (example_response 200 PNone)) initial_state
     = (Inl AttributeError, initial_state)
   \<and> MyAccount_update PNone PNone PNone (PStr ''bob'')
        (const_server (example_response 200 PNone)) initial_state
     = (Inl AttributeError, initial_state)
   \<and> MyAccount_delete (const_server (example_response 200 PNone)) initial_state
     = (Inl AttributeError, initial_state)
   \<and> GDPS_create_comment example_gdps (PStr ''Hello!'')
        (const_server (example_response 200 PNone)) initial_state
     = (Inl AttributeError, initial_state)
   \<and> GDPS_update example_gdps (PStr ''x'') PNone PNone PNone PNone PNone PNone PNone PNone
        (const_server (example_response 200 PNone)) initial_state
     = (Inl AttributeError, initial_state)
   \<and> GDPS_delete example_gdps (const_server (example_response 200 PNone)) initial_state
     = (Inl AttributeError, initial_state)
   \<and> GDPS_vote example_gdps (PInt 1) (const_server (example_response 200 PNone)) initial_state
     = (Inl AttributeError, initial_state)
   \<and> GDPS_unvote example_gdps (const_server (example_response 200 PNone)) initial_state
     = (Inl AttributeError, initial_state)
   \<and> Comment_update example_comment (PStr ''Hi'')
        (const_server (example_response 200 PNone)) initial_state
     = (Inl AttributeError, initial_state)
   \<and> Comment_delete example_comment (const_server (example_response 200 PNone)) initial_state
     = (Inl AttributeError, initial_state)
   \<and> Comment_vote example_comment (PInt 1) (const_server (example_response 200 PNone))
        initial_state
     = (Inl AttributeError, initial_state)
   \<and> Comment_unvote example_comment (const_server (example_response 200 PNone)) initial_state
     = (Inl AttributeError, initial_state)"
proof -
  have cu: "Comment_update example_comment (PStr ''Hi'')
        (const_server (example_response 200 PNone)) initial_state
     = (Inl AttributeError, initial_state)"
    by (simp add: Comment_update_def py_assert_def thn_def ret_def authorization_token_def
          initial_unpublished)
  show ?thesis
    by (simp add: cu me_def create_gdps_def MyAccount_gdpslist_def MyAccount_update_def
          MyAccount_delete_def GDPS_create_comment_def GDPS_update_def GDPS_delete_def
          GDPS_vote_def GDPS_unvote_def Comment_delete_def Comment_vote_def Comment_unvote_def
          auth_required_unpublished [OF initial_unpublished])
qed

subsection \<open>Pages and vote types\<close>

text \<open>What the two truthiness assertions do reject: a page of 0 and a vote type of 0.\<close>

lemma page_zero_fails_locally:
  "Session_sessions a (PInt 0) srv st = (Inl (AssertionError ''page integer must be positive.''), st)"
  "GDPS_get_comment_page g (PInt 0) srv st
     = (Inl (AssertionError ''page integer must be positive.''), st)"
  "isinstance_str q \<Longrightarrow> truthy q \<Longrightarrow>
     search_for_gdps q (PInt 0) srv st
       = (Inl (AssertionError ''page integer must be positive.''), st)"
  "authorization st \<noteq> None \<Longrightarrow>
     MyAccount_gdpslist (PInt 0) srv st
       = (Inl (AssertionError ''page integer must be positive.''), st)"
  by (auto simp: Session_sessions_def GDPS_get_comment_page_def search_for_gdps_def
        MyAccount_gdpslist_def auth_required_def py_assert_def thn_def ret_def raise_def)

lemma vote_type_zero_fails_locally:
  "authorization st \<noteq> None \<Longrightarrow>
     GDPS_vote g (PInt 0) srv st
       = (Inl (AssertionError ''vote type must be like or dislike (1 or 2).''), st)"
  "authorization st \<noteq> None \<Longrightarrow>
     Comment_vote c (PInt 0) srv st
       = (Inl (AssertionError ''vote type must be like or dislike (1 or 2).''), st)"
  by (auto simp: GDPS_vote_def Comment_vote_def auth_required_def py_assert_def thn_def
        ret_def raise_def)

text \<open>
  Claim C4, evaluated. \<^verbatim>\<open>assert page\<close> rejects only 0: with page \<open>-1\<close> each of the
  four paginated operations sends its request, carrying \<^verbatim>\<open>page = -1\<close>, and returns
  what the server answered.
\<close>

theorem negative_page_is_sent:
  "fst (Session_sessions 0 (PInt (- 1))
          (const_server (example_response 200 (PDict [(''data'', PList [])]))) active_state)
     = Inr []
   \<and> map params (sent (snd (Session_sessions 0 (PInt (- 1))
          (const_server (example_response 200 (PDict [(''data'', PList [])]))) active_state)))
     = [[(''page'', PInt (- 1))]]
   \<and> fst (MyAccount_gdpslist (PInt (- 1))
          (const_server (example_response 200 (PDict [(''data'', PList [])]))) active_state)
     = Inr []
   \<and> map params (sent (snd (MyAccount_gdpslist (PInt (- 1))
          (const_server (example_response 200 (PDict [(''data'', PList [])]))) active_state)))
     = [[(''page'', PInt (- 1))]]
   \<and> fst (GDPS_get_comment_page example_gdps (PInt (- 1))
          (const_server (example_response 200 (PDict [(''data'', PList [])]))) initial_state)
     = Inr []
   \<and> map params (sent (snd (GDPS_get_comment_page example_gdps (PInt (- 1))
          (const_server (example_response 200 (PDict [(''data'', PList [])]))) initial_state)))
     = [[(''page'', PInt (- 1))]]
   \<and> fst (search_for_gdps (PStr ''galaxium'') (PInt (- 1))
          (const_server (example_response 200 (PDict [(''data'', PList [])]))) initial_state)
     = Inr []
   \<and> map params (sent (snd (search_for_gdps (PStr ''galaxium'') (PInt (- 1))
          (const_server (example_response 200 (PDict [(''data'', PList [])]))) initial_state)))
     = [[(''urlencoded'', PStr ''galaxium''), (''page'', PInt (- 1))]]"
  by (simp add: Session_sessions_def MyAccount_gdpslist_def GDPS_get_comment_page_def
        search_for_gdps_def auth_required_published [OF active_published]
        authorization_token_def active_published active_sent prog_defs const_server_def
        example_response_def json_data_def dict_get_def initial_state_def)

text \<open>
  Claim C5, evaluated. \<^verbatim>\<open>assert vote_type\<close> rejects only 0: \<^verbatim>\<open>GDPS.vote(3)\<close> and
  \<^verbatim>\<open>Comment.vote(-1)\<close> send their request, carrying the value as \<^verbatim>\<open>type\<close>.
\<close>

theorem vote_type_outside_range_is_sent:
  "fst (GDPS_vote example_gdps (PInt 3)
          (const_server (example_response 200 (PDict []))) active_state)
     = Inr ()
   \<and> map params (sent (snd (GDPS_vote example_gdps (PInt 3)
          (const_server (example_response 200 (PDict []))) active_state)))
     = [[(''type'', PInt 3)]]
   \<and> fst (Comment_vote example_comment (PInt (- 1))
          (const_server (example_response 200 (PDict []))) active_state)
     = Inr ()
   \<and> map params (sent (snd (Comment_vote example_comment (PInt (- 1))
          (const_server (example_response 200 (PDict []))) active_state)))
     = [[(''type'', PInt (- 1))]]"
  by (simp add: GDPS_vote_def Comment_vote_def auth_required_published [OF active_published]
        authorization_token_def active_published active_sent prog_defs const_server_def
        example_response_def)

subsection \<open>Partial updates\<close>

text \<open>
  What the loop computes when every argument is either omitted (\<^verbatim>\<open>None\<close>) or a
  non-empty string: it drops as many keys from the front of the body as arguments were
  omitted, and raises StopIteration when the body has fewer keys than that. The body is
  the one the update should send only when the omitted arguments are exactly the first
  keys of the body.
\<close>

lemma py_del_first:
  "distinct (map fst ((k, v) # rest)) \<Longrightarrow> py_del ((k, v) # rest) k = Inr rest"
proof -
  assume d: "distinct (map fst ((k, v) # rest))"
  then have "\<forall>p\<in>set rest. fst p \<noteq> k" by auto
  then have "filter (\<lambda>p. fst p \<noteq> k) rest = rest" by (simp add: filter_id_conv)
  then show ?thesis by (simp add: py_del_def)
qed

lemma update_loop_drops_prefix:
  assumes "\<forall>i\<in>set args. i = PNone \<or> (isinstance_str i \<and> truthy i)"
    and "distinct (map fst body)"
  shows "update_loop args m1 m2 body =
           (if length (filter (\<lambda>i. i = PNone) args) \<le> length body
            then Inr (drop (length (filter (\<lambda>i. i = PNone) args)) body)
            else Inl StopIteration)"
  using assms
proof (induction args arbitrary: body)
  case Nil
  then show ?case by simp
next
  case (Cons i args)
  show ?case
  proof (cases "i = PNone")
    case True
    show ?thesis
    proof (cases body)
      case Nil
      with True show ?thesis by (simp add: islice_next_def sthn_def)
    next
      case (Cons p rest)
      obtain k v where p: "p = (k, v)" by (cases p)
      from Cons.prems(2) Cons p have d: "distinct (map fst ((k, v) # rest))" by simp
      then have d': "distinct (map fst rest)" by simp
      from Cons.prems(1) have a: "\<forall>i\<in>set args. i = PNone \<or> (isinstance_str i \<and> truthy i)"
        by simp
      show ?thesis
        using True Cons p py_del_first [OF d] Cons.IH [OF a d']
        by (simp add: islice_next_def sthn_def)
    qed
  next
    case False
    with Cons.prems(1) have s: "isinstance_str i" "truthy i" by auto
    from Cons.prems(1) have a: "\<forall>i\<in>set args. i = PNone \<or> (isinstance_str i \<and> truthy i)"
      by simp
    show ?thesis using False s Cons.IH [OF a Cons.prems(2)] by simp
  qed
qed

text \<open>
  Claim C6, evaluated. The loop deletes the first remaining key of the body for each
  falsy argument, not the key of that argument. \<^verbatim>\<open>GDPS.update(name='x')\<close> sends
  \<^verbatim>\<open>{"backgroundUrl": null}\<close>; \<^verbatim>\<open>MyAccount.update(username='bob')\<close> sends \<^verbatim>\<open>{}\<close>;
  and \<^verbatim>\<open>MyAccount.update\<close> with all four arguments sends no \<^verbatim>\<open>avatar_url\<close>, for
  which the body has no key.
\<close>

theorem update_body_loses_supplied_fields:
  "map data (sent (snd (GDPS_update example_gdps (PStr ''x'') PNone PNone PNone PNone PNone
          PNone PNone PNone (const_server (example_response 200 (PDict []))) active_state)))
     = [Some (PDict [(''backgroundUrl'', PNone)])]
   \<and> map data (sent (snd (MyAccount_update PNone PNone PNone (PStr ''bob'')
          (const_server (example_response 200 (PDict []))) active_state)))
     = [Some (PDict [])]
   \<and> map data (sent (snd (MyAccount_update (PStr ''a@gdps.xyz'') (PStr ''pw'')
          (PStr ''https://gdps.xyz/a.png'') (PStr ''bob'')
          (const_server (example_response 200 (PDict []))) active_state)))
     = [Some (PDict [(''email'', PStr ''a@gdps.xyz''), (''password'', PStr ''pw''),
                     (''username'', PStr ''bob'')])]"
  by (simp add: GDPS_update_def MyAccount_update_def auth_required_published [OF active_published]
        authorization_token_def active_published active_sent prog_defs const_server_def
        example_response_def islice_next_def py_del_def)

end
